theory Spec2Isabelle
  imports Complex_Main "HOL-Library.AList" "HOL-Library.Option_ord" "HOL-Library.Product_Lexorder"
begin

section \<open>Destination intelligence tools: scoring, ranking and tiered content resolution\<close>

text \<open>
  A shallow embedding of the tool handlers \<open>recommendDestinations\<close>,
  \<open>generatePersonalizedItinerary\<close>, \<open>generateTravelInspiration\<close> and
  \<open>compareDestinations\<close>, together with the enrichment service functions they call.

  Conventions of the embedding.
  \<^item> A JavaScript \<open>number\<close> is a \<^typ>\<open>rat\<close>: the exact value, without the rounding of
    binary doubles. A count or an index is a \<^typ>\<open>nat\<close>, a requested size is an
    \<^typ>\<open>int\<close>.
  \<^item> The connection pool is a plain \<open>pg\<close> pool, which hands a \<open>DECIMAL\<close> column to the
    handlers as its text. The daily cost is kept as it arrives, since the handlers apply
    \<open>||\<close>, \<open><\<close> and string templates to it. The two ratings are only multiplied
    and compared with numeric constants, which converts the text to its number first,
    so they are kept as that number; a rating of zero adds nothing to a score and
    passes no threshold, whether or not its text counts as truthy.
  \<^item> An optional or nullable field is an \<^typ>\<open>'a option\<close>; the JavaScript idioms
    \<open>x || d\<close> and \<open>if (x)\<close> treat \<open>None\<close>, \<open>0\<close> and the empty string alike.
  \<^item> A thrown \<open>Error\<close> is \<open>Inl\<close> of the result; the message is kept.
  \<^item> The tables of the store are lists of rows. A \<open>SELECT\<close> is the corresponding
    filter, sort and prefix of the table; a write to the store is an outcome that the
    caller supplies (it succeeds or it throws).
  \<^item> The outcome of a call to the generative provider is supplied by the caller as well.
  \<^item> Letter case is converted on the ASCII letters only.
  \<^item> Where two interfaces of the source share a field name, the later record prefixes
    the name with a short tag.
\<close>

subsection \<open>JavaScript and SQL helpers\<close>

definition upper_letters :: string where
  "upper_letters = ''ABCDEFGHIJKLMNOPQRSTUVWXYZ''"

definition lower_letters :: string where
  "lower_letters = ''abcdefghijklmnopqrstuvwxyz''"

definition upper_char :: "char \<Rightarrow> char" where
  "upper_char c = (case map_of (zip lower_letters upper_letters) c of None \<Rightarrow> c | Some u \<Rightarrow> u)"

definition lower_char :: "char \<Rightarrow> char" where
  "lower_char c = (case map_of (zip upper_letters lower_letters) c of None \<Rightarrow> c | Some l \<Rightarrow> l)"

definition toUpperCase :: "string \<Rightarrow> string" where
  "toUpperCase s = map upper_char s"

definition toLowerCase :: "string \<Rightarrow> string" where
  "toLowerCase s = map lower_char s"

fun starts_with :: "'a list \<Rightarrow> 'a list \<Rightarrow> bool" where
  "starts_with s [] = True"
| "starts_with [] (y # ys) = False"
| "starts_with (x # xs) (y # ys) = (x = y \<and> starts_with xs ys)"

text \<open>\<open>s.includes(t)\<close> on strings: \<open>t\<close> occurs in \<open>s\<close> as a contiguous run.\<close>

fun str_includes :: "'a list \<Rightarrow> 'a list \<Rightarrow> bool" where
  "str_includes [] t = (t = [])"
| "str_includes (x # xs) t = (starts_with (x # xs) t \<or> str_includes xs t)"

text \<open>
  \<open>x || d\<close> for an optional number read from a \<open>JSONB\<close> column (which arrives parsed,
  so that zero is falsy), an optional string and an optional array.
\<close>

definition json_number_or :: "rat option \<Rightarrow> rat \<Rightarrow> rat" where
  "json_number_or x d = (case x of None \<Rightarrow> d | Some v \<Rightarrow> if v = 0 then d else v)"

definition str_or :: "string option \<Rightarrow> string \<Rightarrow> string" where
  "str_or x d = (case x of None \<Rightarrow> d | Some v \<Rightarrow> if v = [] then d else v)"

definition list_or :: "'a list option \<Rightarrow> 'a list \<Rightarrow> 'a list" where
  "list_or x d = (case x of None \<Rightarrow> d | Some v \<Rightarrow> v)"

text \<open>\<open>xs[i]\<close>: \<open>undefined\<close> out of range.\<close>

definition at_index :: "'a list \<Rightarrow> nat \<Rightarrow> 'a option" where
  "at_index xs i = (if i < length xs then Some (xs ! i) else None)"

text \<open>\<open>xs.slice(0, n)\<close>: a negative \<open>n\<close> counts from the end.\<close>

definition slice0 :: "int \<Rightarrow> 'a list \<Rightarrow> 'a list" where
  "slice0 n xs = (if 0 \<le> n then take (nat n) xs else take (length xs - nat (- n)) xs)"

text \<open>\<open>Math.round\<close> rounds a half towards plus infinity.\<close>

definition math_round :: "rat \<Rightarrow> int" where
  "math_round x = \<lfloor>x + 1 / 2\<rfloor>"

definition is_integer :: "rat \<Rightarrow> bool" where
  "is_integer x = (of_int \<lfloor>x\<rfloor> = x)"

text \<open>The decimal text of an integer, as a template string prints it.\<close>

definition digit_of :: "int \<Rightarrow> char" where
  "digit_of n = (''0123456789'' ! nat (n mod 10))"

function digits_of :: "int \<Rightarrow> string" where
  "digits_of n = (if n < 10 then [digit_of n] else digits_of (n div 10) @ [digit_of n])"
  by pat_completeness auto
termination
  by (relation "measure nat") auto

declare digits_of.simps [simp del]

definition string_of_int :: "int \<Rightarrow> string" where
  "string_of_int i = (if i < 0 then CHR ''-'' # digits_of (- i) else digits_of i)"

definition string_of_nat :: "nat \<Rightarrow> string" where
  "string_of_nat n = string_of_int (int n)"

text \<open>
  A \<open>DECIMAL(8,2)\<close> value is a whole number of hundredths. Its text, as the store
  prints it and as the handlers receive it, has an optional sign, the integer part,
  a point and two digits: \<open>120.00\<close>, \<open>0.50\<close>.
\<close>

datatype decimal = Hundredths int

fun dec_value :: "decimal \<Rightarrow> rat" where
  "dec_value (Hundredths h) = of_int h / 100"

fun dec_text :: "decimal \<Rightarrow> string" where
  "dec_text (Hundredths h) =
     (if h < 0 then ''-'' else [])
     @ digits_of (\<bar>h\<bar> div 100) @ ''.''
     @ [digit_of (\<bar>h\<bar> mod 100 div 10), digit_of (\<bar>h\<bar> mod 100)]"

text \<open>
  The JavaScript values that a cost takes in the handlers: the text of a \<open>DECIMAL\<close>
  column, or a number.
\<close>

datatype js_value = DecimalText decimal | Number rat

text \<open>
  \<open>x || d\<close> for a nullable \<open>DECIMAL\<close> column: its text is never empty and therefore
  truthy, also for \<open>0.00\<close>; only \<open>NULL\<close> gives the default.
\<close>

definition decimal_or :: "decimal option \<Rightarrow> rat \<Rightarrow> js_value" where
  "decimal_or x d = (case x of None \<Rightarrow> Number d | Some c \<Rightarrow> DecimalText c)"

text \<open>The conversion to a number that arithmetic and \<open>Math.round\<close> apply.\<close>

fun to_number :: "js_value \<Rightarrow> rat" where
  "to_number (DecimalText c) = dec_value c"
| "to_number (Number n) = n"

text \<open>\<open>s < t\<close> on two strings compares them code unit by code unit.\<close>

fun str_less :: "string \<Rightarrow> string \<Rightarrow> bool" where
  "str_less [] [] = False"
| "str_less [] (y # ys) = True"
| "str_less (x # xs) [] = False"
| "str_less (x # xs) (y # ys) =
     ((of_char x :: int) < of_char y \<or> (x = y \<and> str_less xs ys))"

text \<open>
  \<open>a < b\<close>: two strings are compared as strings; otherwise both sides are converted to
  numbers.
\<close>

fun js_less :: "js_value \<Rightarrow> js_value \<Rightarrow> bool" where
  "js_less (DecimalText x) (DecimalText y) = str_less (dec_text x) (dec_text y)"
| "js_less a b = (to_number a < to_number b)"

text \<open>
  The input syntax of the store's \<open>uuid\<close> type: sixteen pairs of hexadecimal digits,
  where a hyphen may follow every second pair but the last, the whole optionally in
  braces. \<open>uuid_rest b n s\<close> reads the last \<open>n\<close> pairs.
\<close>

definition is_hex :: "char \<Rightarrow> bool" where
  "is_hex c = (c \<in> set ''0123456789abcdefABCDEF'')"

fun uuid_rest :: "bool \<Rightarrow> nat \<Rightarrow> string \<Rightarrow> bool" where
  "uuid_rest braces 0 s = (if braces then s = ''}'' else s = [])"
| "uuid_rest braces (Suc n) (a # b # rest) =
     (is_hex a \<and> is_hex b
      \<and> uuid_rest braces n
            (if odd (Suc n) \<and> 0 < n \<and> take 1 rest = ''-'' then drop 1 rest else rest))"
| "uuid_rest braces (Suc n) s = False"

definition is_uuid :: "string \<Rightarrow> bool" where
  "is_uuid s = (if take 1 s = ''{'' then uuid_rest True 16 (drop 1 s) else uuid_rest False 16 s)"

subsection \<open>Errors and collaborators\<close>

datatype error = Error string

text \<open>The outcome of a write to the store (\<open>await query(...)\<close> resolves or rejects).\<close>

datatype write_outcome = Written | WriteThrows error

text \<open>
  The outcome of a call to the generative provider: \<open>initOpenAI\<close> returned no client,
  the call failed (provider error, empty content or malformed JSON), or a parsed
  result came back.
\<close>

datatype 'a ai_outcome = NotConfigured | CallFailed | Completed 'a

subsection \<open>Rows of the store\<close>

record BestTime =
  months :: "string list option"
  weather :: "string option"

record Destination =
  city :: string
  country :: string
  destination_type :: "string list option"
  best_time_to_visit :: "BestTime option"
  average_temp_celsius :: "(string \<times> rat) list option"
  safety_rating :: "rat option"
  tourist_infrastructure_rating :: "rat option"
  budget_level :: "string option"
  average_daily_cost_usd :: "decimal option"
  popular_activities :: "string list option"
  famous_attractions :: "string list option"
  hero_image_url :: "string option"
  gallery_images :: "string list option"
  is_active :: bool

record UserTravelPreferences =
  passenger_id :: string
  budget_preference :: "string option"
  interests :: "string list option"
  bucket_list_destinations :: "string list option"

text \<open>
  A row of \<open>travel_recommendations_log\<close>: the texts that
  \<open>jsonb_array_elements_text(recommendations_shown)\<close> yields.
\<close>

record LogRow =
  recommendations_shown :: "string list"

record Store =
  destinations :: "Destination list"
  user_travel_preferences :: "UserTravelPreferences list"
  travel_recommendations_log :: "LogRow list"

subsection \<open>recommend-destinations: input and candidate query\<close>

record BudgetRange =
  range_min :: rat
  range_max :: rat

record Context =
  travel_month :: "string option"
  budget_range :: "BudgetRange option"
  ctx_interests :: "string list option"
  previous_destinations :: "string list option"

record RecommendDestinationsInput =
  in_passenger_id :: "string option"
  in_context :: "Context option"
  recommendation_count :: "int option"

definition empty_context :: Context where
  "empty_context = \<lparr>travel_month = None, budget_range = None, ctx_interests = None,
     previous_destinations = None\<rparr>"

text \<open>The destructuring defaults \<open>context = {}\<close> and \<open>recommendation_count = 5\<close>.\<close>

definition context_of :: "RecommendDestinationsInput \<Rightarrow> Context" where
  "context_of inp = (case in_context inp of None \<Rightarrow> empty_context | Some c \<Rightarrow> c)"

definition requested_count :: "RecommendDestinationsInput \<Rightarrow> int" where
  "requested_count inp = (case recommendation_count inp of None \<Rightarrow> 5 | Some n \<Rightarrow> n)"

text \<open>
  \<open>SELECT * FROM user_travel_preferences WHERE passenger_id = $1\<close>, read only when
  \<open>passenger_id\<close> is truthy; the first row is used. The column has the type \<open>uuid\<close>:
  the store rejects a parameter that is not in the syntax of that type, and \<open>query\<close>
  rethrows the rejection.
\<close>

definition lookup_preferences ::
  "Store \<Rightarrow> string option \<Rightarrow> error + UserTravelPreferences option" where
  "lookup_preferences st pid =
     (case pid of
        None \<Rightarrow> Inr None
      | Some p \<Rightarrow>
          if p = [] then Inr None
          else if \<not> is_uuid p
          then Inl (Error (''invalid input syntax for type uuid: '' @ [CHR 0x22] @ p @ [CHR 0x22]))
          else Inr (List.find (\<lambda>r. passenger_id r = p) (user_travel_preferences st)))"

text \<open>A row of the candidate query: the destination and its \<open>popularity_score\<close>.\<close>

record Candidate =
  dest :: Destination
  popularity_score :: nat

text \<open>
  \<open>COUNT(DISTINCT trl.log_id)\<close> over the join
  \<open>d.city = ANY(SELECT jsonb_array_elements_text(trl.recommendations_shown))\<close>:
  the number of log rows that list the city.
\<close>

definition popularity :: "LogRow list \<Rightarrow> Destination \<Rightarrow> nat" where
  "popularity logs d = length (filter (\<lambda>l. city d \<in> set (recommendations_shown l)) logs)"

text \<open>
  The \<open>WHERE\<close> clause: active rows, then the optional filters. \<open>BETWEEN\<close> and the array
  overlap \<open>&&\<close> are false on a \<open>NULL\<close> column.
\<close>

definition budget_filter :: "Context \<Rightarrow> Destination \<Rightarrow> bool" where
  "budget_filter ctx d =
     (case budget_range ctx of
        None \<Rightarrow> True
      | Some b \<Rightarrow> (case average_daily_cost_usd d of
                    None \<Rightarrow> False
                  | Some c \<Rightarrow> range_min b \<le> dec_value c \<and> dec_value c \<le> range_max b))"

definition interest_filter :: "Context \<Rightarrow> Destination \<Rightarrow> bool" where
  "interest_filter ctx d =
     (case ctx_interests ctx of
        None \<Rightarrow> True
      | Some [] \<Rightarrow> True
      | Some is \<Rightarrow> (case destination_type d of
                     None \<Rightarrow> False
                   | Some ts \<Rightarrow> list_ex (\<lambda>t. t \<in> set is) ts))"

definition previous_filter :: "Context \<Rightarrow> Destination \<Rightarrow> bool" where
  "previous_filter ctx d =
     (case previous_destinations ctx of
        None \<Rightarrow> True
      | Some ps \<Rightarrow> city d \<notin> set ps)"

definition candidate_where :: "Context \<Rightarrow> Destination \<Rightarrow> bool" where
  "candidate_where ctx d =
     (is_active d \<and> budget_filter ctx d \<and> interest_filter ctx d \<and> previous_filter ctx d)"

text \<open>
  \<open>ORDER BY popularity_score DESC, d.tourist_infrastructure_rating DESC\<close>: the sort key
  is ascending in the negated columns; a \<open>NULL\<close> rating sorts first under \<open>DESC\<close>.
  SQL leaves the order of rows with equal keys open; the model takes them in table order.
\<close>

definition order_key :: "Candidate \<Rightarrow> int \<times> rat option" where
  "order_key c =
     (- int (popularity_score c), map_option uminus (tourist_infrastructure_rating (dest c)))"

text \<open>
  The candidate query. \<open>LIMIT n\<close> with a negative \<open>n\<close> is rejected by the store, and the
  rejection is rethrown by \<open>query\<close>.
\<close>

definition candidate_query :: "Store \<Rightarrow> Context \<Rightarrow> int \<Rightarrow> error + Candidate list" where
  "candidate_query st ctx count =
     (if count * 2 < 0 then Inl (Error ''LIMIT must not be negative'')
      else Inr (take (nat (count * 2))
             (sort_key order_key
               (map (\<lambda>d. \<lparr>dest = d, popularity_score = popularity (travel_recommendations_log st) d\<rparr>)
                 (filter (candidate_where ctx) (destinations st))))))"

subsection \<open>recommend-destinations: the match score\<close>

text \<open>
  The number of category tags of the destination that occur, as a substring, in the
  upper-cased text of some interest of the stored profile.
\<close>

definition interestMatch :: "Destination \<Rightarrow> UserTravelPreferences \<Rightarrow> nat" where
  "interestMatch d p =
     length (filter (\<lambda>ty. list_ex (\<lambda>interest. str_includes (toUpperCase interest) ty)
                             (list_or (interests p) []))
                    (list_or (destination_type d) []))"

text \<open>The number of category tags equal to the upper-cased text of some context interest.\<close>

definition contextMatch :: "Destination \<Rightarrow> string list \<Rightarrow> nat" where
  "contextMatch d is =
     length (filter (\<lambda>ty. list_ex (\<lambda>interest. toUpperCase interest = ty) is)
                    (list_or (destination_type d) []))"

definition on_bucket_list :: "Destination \<Rightarrow> UserTravelPreferences \<Rightarrow> bool" where
  "on_bucket_list d p =
     (case bucket_list_destinations p of None \<Rightarrow> False | Some bl \<Rightarrow> city d \<in> set bl)"

definition preference_boost :: "UserTravelPreferences option \<Rightarrow> Destination \<Rightarrow> rat" where
  "preference_boost userPreferences d =
     (case userPreferences of
        None \<Rightarrow> 0
      | Some p \<Rightarrow> of_nat (interestMatch d p) * 10
                  + (if budget_level d = budget_preference p then 15 else 0)
                  + (if on_bucket_list d p then 25 else 0))"

definition context_boost :: "Context \<Rightarrow> Destination \<Rightarrow> rat" where
  "context_boost ctx d =
     (case ctx_interests ctx of None \<Rightarrow> 0 | Some is \<Rightarrow> of_nat (contextMatch d is) * 15)"

definition best_months :: "Destination \<Rightarrow> string list" where
  "best_months d = (case best_time_to_visit d of None \<Rightarrow> [] | Some b \<Rightarrow> list_or (months b) [])"

definition seasonal_boost :: "Context \<Rightarrow> Destination \<Rightarrow> rat" where
  "seasonal_boost ctx d =
     (case travel_month ctx of
        None \<Rightarrow> 0
      | Some m \<Rightarrow> if m \<noteq> [] \<and> m \<in> set (best_months d) then 20 else 0)"

definition popularity_boost :: "Candidate \<Rightarrow> rat" where
  "popularity_boost c = min (of_nat (popularity_score c) * 2) 10"

definition infrastructure_boost :: "Destination \<Rightarrow> rat" where
  "infrastructure_boost d =
     (case tourist_infrastructure_rating d of
        None \<Rightarrow> 0
      | Some r \<Rightarrow> if r = 0 then 0 else r * 2)"

text \<open>The running sum \<open>matchScore\<close> at the end of the callback, before the clamp.\<close>

definition matchScore :: "UserTravelPreferences option \<Rightarrow> Context \<Rightarrow> Candidate \<Rightarrow> rat" where
  "matchScore userPreferences ctx c =
     50 + preference_boost userPreferences (dest c) + context_boost ctx (dest c)
        + seasonal_boost ctx (dest c) + popularity_boost c + infrastructure_boost (dest c)"

record ScoredDestination =
  row :: Candidate
  match_score :: rat

text \<open>\<open>{...dest, match_score: Math.min(matchScore, 100)}\<close>.\<close>

definition score_candidate ::
  "UserTravelPreferences option \<Rightarrow> Context \<Rightarrow> Candidate \<Rightarrow> ScoredDestination" where
  "score_candidate userPreferences ctx c =
     \<lparr>row = c, match_score = min (matchScore userPreferences ctx c) 100\<rparr>"

text \<open>The rating column as the schema constrains it: \<open>CHECK (r >= 0 AND r <= 5)\<close>.\<close>

definition rating_in_range :: "Destination \<Rightarrow> bool" where
  "rating_in_range d =
     (case tourist_infrastructure_rating d of None \<Rightarrow> True | Some r \<Rightarrow> 0 \<le> r \<and> r \<le> 5)"

subsection \<open>recommend-destinations: ranking, personalization and formatting\<close>

text \<open>
  \<open>candidateDestinations.sort((a, b) => b.match_score - a.match_score)\<close>: the sort of
  the JavaScript array is stable, so it is the stable sort on the negated score.
\<close>

definition sort_by_score :: "ScoredDestination list \<Rightarrow> ScoredDestination list" where
  "sort_by_score xs = sort_key (\<lambda>s. - match_score s) xs"

text \<open>
  \<open>personalizeRecommendations\<close>: without a client, on a failed call, and when the
  parsed result has no \<open>recommendations\<close> field, the candidates come back unchanged;
  otherwise the list that the provider returned is used as it is.
\<close>

definition personalizeRecommendations ::
  "ScoredDestination list option ai_outcome \<Rightarrow> ScoredDestination list \<Rightarrow> ScoredDestination list" where
  "personalizeRecommendations ai candidateDestinations =
     (case ai of
        NotConfigured \<Rightarrow> candidateDestinations
      | CallFailed \<Rightarrow> candidateDestinations
      | Completed result \<Rightarrow>
          (case result of None \<Rightarrow> candidateDestinations | Some recs \<Rightarrow> recs))"

record DestinationRecommendation =
  rank :: nat
  destination :: string
  rec_country :: string
  rec_match_score :: rat
  match_reasons :: "string list"
  destination_highlights :: "string list"
  estimated_budget :: js_value
  rec_best_time_to_visit :: string
  why_now :: string
  hero_image :: string
  call_to_action :: string

record InspirationTheme =
  it_theme :: string
  it_destinations :: "string list"

record RecommendationsResponse =
  recommendations :: "DestinationRecommendation list"
  inspiration_themes :: "InspirationTheme list"

text \<open>\<open>xs.join(', ')\<close>.\<close>

fun join_comma :: "string list \<Rightarrow> string" where
  "join_comma [] = []"
| "join_comma [x] = x"
| "join_comma (x # y # ys) = x @ '', '' @ join_comma (y # ys)"

definition seasonal_reason :: "Context \<Rightarrow> Destination \<Rightarrow> string list" where
  "seasonal_reason ctx d =
     (case travel_month ctx of
        None \<Rightarrow> []
      | Some m \<Rightarrow> if m \<noteq> [] \<and> m \<in> set (best_months d)
                  then [''Perfect weather in '' @ m] else [])"

definition interest_reason :: "Context \<Rightarrow> Destination \<Rightarrow> string list" where
  "interest_reason ctx d =
     (case ctx_interests ctx of
        None \<Rightarrow> []
      | Some is \<Rightarrow>
          (case destination_type d of
             None \<Rightarrow> []
           | Some ts \<Rightarrow>
               (case filter (\<lambda>ty. toLowerCase ty \<in> set is) ts of
                  [] \<Rightarrow> []
                | m # ms \<Rightarrow> [''Matches your interest in '' @ toLowerCase m])))"

definition safety_reason :: "Destination \<Rightarrow> string list" where
  "safety_reason d =
     (case safety_rating d of
        None \<Rightarrow> []
      | Some r \<Rightarrow> if r \<noteq> 0 \<and> 4 \<le> r then [''High safety rating''] else [])"

definition infrastructure_reason :: "Destination \<Rightarrow> string list" where
  "infrastructure_reason d =
     (case tourist_infrastructure_rating d of
        None \<Rightarrow> []
      | Some r \<Rightarrow> if r \<noteq> 0 \<and> 9 / 2 \<le> r then [''Excellent tourist infrastructure''] else [])"

definition matchReasons :: "Context \<Rightarrow> Destination \<Rightarrow> string list" where
  "matchReasons ctx d =
     (let rs = seasonal_reason ctx d @ interest_reason ctx d @ safety_reason d
               @ infrastructure_reason d
      in if rs = [] then [''Popular destination'', ''Great for first-time visitors''] else rs)"

definition format_recommendation ::
  "Context \<Rightarrow> nat \<Rightarrow> ScoredDestination \<Rightarrow> DestinationRecommendation" where
  "format_recommendation ctx index s =
     (let d = dest (row s) in
      \<lparr>rank = index + 1,
       destination = city d,
       rec_country = country d,
       rec_match_score = match_score s,
       match_reasons = slice0 3 (matchReasons ctx d),
       destination_highlights =
         (case famous_attractions d of None \<Rightarrow> [] | Some xs \<Rightarrow> slice0 4 xs),
       estimated_budget = decimal_or (average_daily_cost_usd d) 100,
       rec_best_time_to_visit =
         str_or (case best_time_to_visit d of
                   None \<Rightarrow> None
                 | Some b \<Rightarrow> map_option join_comma (months b)) ''Year-round'',
       why_now =
         str_or (case best_time_to_visit d of None \<Rightarrow> None | Some b \<Rightarrow> weather b)
           ''Great time to visit'',
       hero_image = str_or (hero_image_url d) [],
       call_to_action =
         ''Explore '' @ city d @ '' packages from $''
           @ string_of_int
               (math_round (to_number (decimal_or (average_daily_cost_usd d) 100) * 3))\<rparr>)"

text \<open>\<open>xs.map((dest, index) => ...)\<close>.\<close>

definition format_all :: "Context \<Rightarrow> ScoredDestination list \<Rightarrow> DestinationRecommendation list" where
  "format_all ctx xs = map (\<lambda>(index, s). format_recommendation ctx index s) (enumerate 0 xs)"

text \<open>
  The \<open>themes\<close> map, in insertion order: every category tag of every candidate row
  collects at most five cities.
\<close>

definition add_theme :: "string \<Rightarrow> string \<Rightarrow> (string \<times> string list) list \<Rightarrow> (string \<times> string list) list" where
  "add_theme c ty themes =
     (case map_of themes ty of
        None \<Rightarrow> themes @ [(ty, [c])]
      | Some cities \<Rightarrow> if length cities < 5 then AList.update ty (cities @ [c]) themes
                       else themes)"

definition collect_themes :: "Candidate list \<Rightarrow> (string \<times> string list) list" where
  "collect_themes rows =
     fold (\<lambda>r themes. fold (add_theme (city (dest r))) (list_or (destination_type (dest r)) []) themes)
       rows []"

definition theme_entry :: "string \<times> string list \<Rightarrow> InspirationTheme" where
  "theme_entry e =
     \<lparr>it_theme = take 1 (fst e) @ toLowerCase (drop 1 (fst e)), it_destinations = snd e\<rparr>"

text \<open>
  \<open>await query(...)\<close> rethrows the rejection of a write, whereas
  \<open>try { await query(...) } catch (error) { console.error(...) }\<close> completes
  normally whether the write resolves or rejects.
\<close>

definition await_write :: "write_outcome \<Rightarrow> error + unit" where
  "await_write w = (case w of Written \<Rightarrow> Inr () | WriteThrows e \<Rightarrow> Inl e)"

definition try_write :: "write_outcome \<Rightarrow> error + unit" where
  "try_write w = (case await_write w of Inl e \<Rightarrow> Inr () | Inr u \<Rightarrow> Inr ())"

text \<open>
  The list \<open>topDestinations\<close>: the candidate rows scored, sorted and cut to the requested
  count.
\<close>

definition topDestinations ::
  "UserTravelPreferences option \<Rightarrow> Context \<Rightarrow> int \<Rightarrow> Candidate list \<Rightarrow> ScoredDestination list" where
  "topDestinations userPreferences ctx count rows =
     slice0 count (sort_by_score (map (score_candidate userPreferences ctx) rows))"

text \<open>
  The handler. \<open>ai\<close> is the outcome of the personalization call and \<open>log_write\<close> the
  outcome of the insert into \<open>travel_recommendations_log\<close>; each is consulted only where
  the source makes the call. The two reads are awaited outside any \<open>try\<close>.
\<close>

definition recommendDestinations ::
  "Store \<Rightarrow> ScoredDestination list option ai_outcome \<Rightarrow> write_outcome
     \<Rightarrow> RecommendDestinationsInput \<Rightarrow> error + RecommendationsResponse" where
  "recommendDestinations st ai log_write inp =
     (let ctx = context_of inp;
          count = requested_count inp
      in case lookup_preferences st (in_passenger_id inp) of
           Inl e \<Rightarrow> Inl e
         | Inr userPreferences \<Rightarrow>
             (case candidate_query st ctx count of
                Inl e \<Rightarrow> Inl e
              | Inr rows \<Rightarrow>
                  if rows = [] then Inr \<lparr>recommendations = [], inspiration_themes = []\<rparr>
                  else
                    let top = topDestinations userPreferences ctx count rows;
                        personalizedDestinations =
                          (if userPreferences \<noteq> None \<or> ctx_interests ctx \<noteq> None
                           then personalizeRecommendations ai top else top);
                        recs = format_all ctx personalizedDestinations;
                        themes = map theme_entry (collect_themes rows);
                        logged = (case in_passenger_id inp of
                                    None \<Rightarrow> Inr ()
                                  | Some p \<Rightarrow> if p = [] then Inr () else try_write log_write)
                    in case logged of
                         Inl e \<Rightarrow> Inl e
                       | Inr u \<Rightarrow>
                           Inr \<lparr>recommendations = recs,
                                inspiration_themes = slice0 3 themes\<rparr>))"

subsection \<open>generate-personalized-itinerary\<close>

record Slot =
  activity :: string
  location :: string
  duration :: string
  why_this :: string
  tips :: "string list"

record Meals =
  breakfast :: string
  lunch :: string
  dinner :: string

record DaySchedule =
  day :: int
  theme :: string
  morning :: Slot
  afternoon :: Slot
  evening :: Slot
  meals :: Meals
  estimated_cost :: js_value
  walking_distance_km :: rat

record AlternativeOption =
  alt_day :: int
  original_activity :: string
  alternative :: string
  reason :: string

record BudgetBreakdown =
  bb_meals :: rat
  bb_activities :: rat
  bb_transportation :: rat
  total_per_day :: js_value

record ItineraryHead =
  head_destination :: string
  total_days :: int
  travel_style :: string
  overview :: string

record ItineraryResponse =
  itinerary :: ItineraryHead
  daily_schedule :: "DaySchedule list"
  alternative_options :: "AlternativeOption list"
  packing_list :: "string list"
  budget_breakdown :: BudgetBreakdown

text \<open>A row of \<open>itinerary_templates\<close>, with the columns the handler reads.\<close>

record ItineraryTemplate =
  template_id :: string
  trip_style :: string
  tpl_daily_schedule :: "DaySchedule list option"
  tpl_packing_list :: "string list option"
  tpl_budget_breakdown :: "BudgetBreakdown option"

text \<open>
  The JSON that \<open>generateItinerary\<close> parses, in the shape its prompt asks for; the
  fields for which the handler has a default are optional.
\<close>

record AiItinerary =
  ai_total_days :: int
  ai_travel_style :: string
  ai_overview :: string
  ai_daily_schedule :: "DaySchedule list"
  ai_alternative_options :: "AlternativeOption list option"
  ai_packing_list :: "string list option"
  ai_budget_breakdown :: "BudgetBreakdown option"

text \<open>
  The traveler profile and the travel dates of the request only shape the template
  query, the prompt and the inserted row, all of which belong to collaborators: the
  input keeps the two fields that the handler itself inspects.
\<close>

record GenerateItineraryInput =
  gi_destination :: string
  duration_days :: int

text \<open>
  \<open>SELECT * FROM destinations WHERE LOWER(city) = LOWER($1) AND is_active = true LIMIT 1\<close>.
\<close>

definition find_destination :: "Store \<Rightarrow> string \<Rightarrow> Destination option" where
  "find_destination st name =
     List.find (\<lambda>d. toLowerCase (city d) = toLowerCase name \<and> is_active d) (destinations st)"

definition not_found :: "string \<Rightarrow> error" where
  "not_found name = Error (''Destination '' @ [CHR 0x22] @ name @ [CHR 0x22] @ '' not found'')"

text \<open>The default budget breakdown, computed from the daily cost (\<open>0.4\<close> is \<open>2/5\<close>).\<close>

definition default_budget :: "Destination \<Rightarrow> BudgetBreakdown" where
  "default_budget d =
     \<lparr>bb_meals =
        of_int (math_round (to_number (decimal_or (average_daily_cost_usd d) 100) * (2 / 5))),
      bb_activities =
        of_int (math_round (to_number (decimal_or (average_daily_cost_usd d) 100) * (2 / 5))),
      bb_transportation =
        of_int (math_round (to_number (decimal_or (average_daily_cost_usd d) 100) * (1 / 5))),
      total_per_day = decimal_or (average_daily_cost_usd d) 100\<rparr>"

text \<open>Tier 1: the response built from a matching template.\<close>

definition template_response :: "Destination \<Rightarrow> int \<Rightarrow> ItineraryTemplate \<Rightarrow> ItineraryResponse" where
  "template_response d n template =
     \<lparr>itinerary =
        \<lparr>head_destination = city d, total_days = n, travel_style = trip_style template,
         overview = ''Experience the best of '' @ city d @ '' in '' @ string_of_int n
           @ '' days with this '' @ toLowerCase (trip_style template) @ '' itinerary.''\<rparr>,
      daily_schedule = list_or (tpl_daily_schedule template) [],
      alternative_options = [],
      packing_list = list_or (tpl_packing_list template) [],
      budget_breakdown =
        (case tpl_budget_breakdown template of None \<Rightarrow> default_budget d | Some b \<Rightarrow> b)\<rparr>"

text \<open>
  The service function \<open>generateItinerary\<close>: it throws when no client is configured and
  when the call fails.
\<close>

definition generateItinerary :: "AiItinerary ai_outcome \<Rightarrow> error + AiItinerary" where
  "generateItinerary ai =
     (case ai of
        NotConfigured \<Rightarrow> Inl (Error ''OpenAI not configured'')
      | CallFailed \<Rightarrow> Inl (Error ''Failed to generate itinerary'')
      | Completed a \<Rightarrow> Inr a)"

text \<open>Tier 2: the generated itinerary, merged with the destination's own data.\<close>

definition generated_response :: "Destination \<Rightarrow> AiItinerary \<Rightarrow> ItineraryResponse" where
  "generated_response d a =
     \<lparr>itinerary =
        \<lparr>head_destination = city d, total_days = ai_total_days a,
         travel_style = ai_travel_style a, overview = ai_overview a\<rparr>,
      daily_schedule = ai_daily_schedule a,
      alternative_options = list_or (ai_alternative_options a) [],
      packing_list =
        list_or (ai_packing_list a)
          [''Comfortable walking shoes'', ''Weather-appropriate clothing'', ''Camera'',
           ''Power adapter'', ''Reusable water bottle''],
      budget_breakdown =
        (case ai_budget_breakdown a of None \<Rightarrow> default_budget d | Some b \<Rightarrow> b)\<rparr>"

text \<open>Tier 3: the basic itinerary. \<open>dest.famous_attractions?.[k]\<close> first.\<close>

definition attraction :: "Destination \<Rightarrow> nat \<Rightarrow> string option" where
  "attraction d k = (case famous_attractions d of None \<Rightarrow> None | Some xs \<Rightarrow> at_index xs k)"

definition fallback_day :: "Destination \<Rightarrow> nat \<Rightarrow> DaySchedule" where
  "fallback_day d i =
     \<lparr>day = int i + 1,
      theme = (if i = 0 then ''Arrival & City Introduction''
               else ''Day '' @ string_of_nat (i + 1) @ '' Exploration''),
      morning =
        \<lparr>activity = str_or (attraction d (i * 2)) ''Explore local area'',
         location = city d, duration = ''2-3 hours'', why_this = ''Popular attraction'',
         tips = [''Arrive early'', ''Book tickets in advance'']\<rparr>,
      afternoon =
        \<lparr>activity = str_or (attraction d (i * 2 + 1)) ''Local cuisine exploration'',
         location = city d, duration = ''3-4 hours'', why_this = ''Must-see experience'',
         tips = [''Take your time'', ''Enjoy the experience'']\<rparr>,
      evening =
        \<lparr>activity = ''Dinner and local nightlife'',
         location = city d, duration = ''2-3 hours'', why_this = ''Experience local culture'',
         tips = [''Try local specialties'', ''Ask locals for recommendations'']\<rparr>,
      meals =
        \<lparr>breakfast = ''Hotel or local caf'' @ [CHR 0xC3, CHR 0xA9],
         lunch = ''Local restaurant'', dinner = ''Traditional cuisine''\<rparr>,
      estimated_cost = decimal_or (average_daily_cost_usd d) 100,
      walking_distance_km = 5\<rparr>"

definition fallback_response :: "Destination \<Rightarrow> int \<Rightarrow> ItineraryResponse" where
  "fallback_response d n =
     \<lparr>itinerary =
        \<lparr>head_destination = city d, total_days = n, travel_style = ''BALANCED'',
         overview = ''Explore '' @ city d @ '' at your own pace. This '' @ string_of_int n
           @ ''-day itinerary covers the highlights.''\<rparr>,
      daily_schedule = map (fallback_day d) [0..<nat n],
      alternative_options = [],
      packing_list =
        [''Comfortable walking shoes'', ''Weather-appropriate clothing'', ''Camera'',
         ''Travel documents''],
      budget_breakdown = default_budget d\<rparr>"

text \<open>
  The handler. \<open>templateResult\<close> is the list of rows of the template query,
  \<open>usage_write\<close> the outcome of the \<open>UPDATE\<close> of the usage counter, \<open>ai\<close> the outcome of
  the generation call and \<open>template_write\<close> the outcome of the \<open>INSERT\<close> of the generated
  template. The \<open>UPDATE\<close> is awaited outside any \<open>try\<close>; the \<open>INSERT\<close> sits in a
  \<open>try\<close> of its own inside the \<open>try\<close> around the generation.
\<close>

definition generatePersonalizedItinerary ::
  "Store \<Rightarrow> ItineraryTemplate list \<Rightarrow> write_outcome \<Rightarrow> AiItinerary ai_outcome \<Rightarrow> write_outcome
     \<Rightarrow> GenerateItineraryInput \<Rightarrow> error + ItineraryResponse" where
  "generatePersonalizedItinerary st templateResult usage_write ai template_write inp =
     (if duration_days inp < 1 \<or> duration_days inp > 30
      then Inl (Error ''Duration must be between 1 and 30 days'')
      else case find_destination st (gi_destination inp) of
             None \<Rightarrow> Inl (not_found (gi_destination inp))
           | Some d \<Rightarrow>
               (case templateResult of
                  template # rest \<Rightarrow>
                    (case await_write usage_write of
                       Inl e \<Rightarrow> Inl e
                     | Inr u \<Rightarrow> Inr (template_response d (duration_days inp) template))
                | [] \<Rightarrow>
                    (case generateItinerary ai of
                       Inr aiItinerary \<Rightarrow>
                         (case try_write template_write of
                            Inl e' \<Rightarrow> Inl e'
                          | Inr u \<Rightarrow> Inr (generated_response d aiItinerary))
                     | Inl e \<Rightarrow> Inr (fallback_response d (duration_days inp)))))"

subsection \<open>generate-travel-inspiration\<close>

record GenerateInspirationInput =
  content_type :: string
  gin_theme :: string
  target_destination :: "string option"
  target_audience :: "string option"
  tone :: "string option"
  word_count :: "int option"

text \<open>The parsed JSON of the provider; any of the four fields may be missing.\<close>

record AiContent =
  title :: "string option"
  subtitle :: "string option"
  body :: "string option"
  callToAction :: "string option"

record InspirationBody =
  ib_title :: "string option"
  ib_subtitle :: "string option"
  ib_body :: "string option"
  ib_call_to_action :: "string option"
  related_packages :: "string list"
  images :: "string list"
  estimated_read_time :: int

record SeoMetadata =
  meta_title :: "string option"
  meta_description :: "string option"
  seo_keywords :: "string list"

record InspirationResponse =
  content :: InspirationBody
  seo_metadata :: SeoMetadata

text \<open>
  The service function \<open>generateInspirationContent\<close>: it throws when no client is
  configured and when the call fails.
\<close>

definition generateInspirationContent :: "AiContent ai_outcome \<Rightarrow> error + AiContent" where
  "generateInspirationContent ai =
     (case ai of
        NotConfigured \<Rightarrow> Inl (Error ''OpenAI not configured'')
      | CallFailed \<Rightarrow> Inl (Error ''Failed to generate inspiration content'')
      | Completed c \<Rightarrow> Inr c)"

text \<open>
  \<open>SELECT gallery_images, hero_image_url FROM destinations WHERE LOWER(city) = LOWER($1)
  LIMIT 1\<close>, then \<open>[...(gallery_images || []), hero_image_url].filter(Boolean)\<close>.
\<close>

definition related_images :: "Store \<Rightarrow> string option \<Rightarrow> string list" where
  "related_images st target =
     (case target of
        None \<Rightarrow> []
      | Some t \<Rightarrow>
          if t = [] then []
          else (case List.find (\<lambda>d. toLowerCase (city d) = toLowerCase t) (destinations st) of
                  None \<Rightarrow> []
                | Some d \<Rightarrow>
                    filter (\<lambda>u. u \<noteq> [])
                      (list_or (gallery_images d) []
                        @ (case hero_image_url d of None \<Rightarrow> [] | Some h \<Rightarrow> [h]))))"

text \<open>
  The handler. The generation call is awaited first, outside any \<open>try\<close>; the insert
  into \<open>inspiration_content\<close> sits in a \<open>try\<close>.
\<close>

definition generateTravelInspiration ::
  "Store \<Rightarrow> AiContent ai_outcome \<Rightarrow> write_outcome \<Rightarrow> GenerateInspirationInput
     \<Rightarrow> error + InspirationResponse" where
  "generateTravelInspiration st ai content_write inp =
     (let audience = (case target_audience inp of None \<Rightarrow> ''travelers'' | Some a \<Rightarrow> a);
          wc = (case word_count inp of None \<Rightarrow> 500 | Some n \<Rightarrow> n)
      in case generateInspirationContent ai of
           Inl e \<Rightarrow> Inl e
         | Inr aiContent \<Rightarrow>
             (case try_write content_write of
                Inl e \<Rightarrow> Inl e
              | Inr u \<Rightarrow>
                  Inr \<lparr>content =
                         \<lparr>ib_title = title aiContent, ib_subtitle = subtitle aiContent,
                          ib_body = body aiContent, ib_call_to_action = callToAction aiContent,
                          related_packages = [],
                          images = slice0 5 (related_images st (target_destination inp)),
                          estimated_read_time = \<lceil>(of_int wc :: rat) / 200\<rceil>\<rparr>,
                       seo_metadata =
                         \<lparr>meta_title = title aiContent, meta_description = subtitle aiContent,
                          seo_keywords =
                            [toLowerCase (gin_theme inp),
                             str_or (map_option toLowerCase (target_destination inp)) ''travel'',
                             audience, ''vacation'', ''travel guide'']\<rparr>\<rparr>))"

subsection \<open>compare-destinations\<close>

record CompareDestinationsInput =
  cd_destinations :: "string list"
  comparison_criteria :: "string list option"

text \<open>
  The text of a cell of the comparison matrix, by the template that produces it:
  \<open>$c/day\<close>, \<open>t\<degree>C\<close>, \<open>n popular activities\<close>, or a plain text.
\<close>

datatype cell = CostPerDay js_value | DegreesC rat | PopularActivities nat | Text string

text \<open>
  A \<open>Record<string, string>\<close> is an association list in insertion order; assigning to a
  key that is present replaces its value in place.
\<close>

record Criterion =
  criterion :: string
  cr_values :: "(string \<times> cell) list"
  winner :: "string option"

record ComparisonMatrix =
  cm_destinations :: "string list"
  criteria :: "Criterion list"

record Recommendation =
  best_for_budget :: string
  best_for_weather :: string
  best_for_culture :: string
  overall_recommendation :: string

record CompareDestinationsResponse =
  comparison_matrix :: ComparisonMatrix
  recommendation :: Recommendation

text \<open>
  \<open>SELECT * FROM destinations WHERE LOWER(city) = ANY($1) AND is_active = true\<close> with
  the lower-cased request names as the parameter: one row for every active row of the
  table whose lower-cased city is among them.
\<close>

definition select_destinations :: "Store \<Rightarrow> string list \<Rightarrow> Destination list" where
  "select_destinations st names =
     filter (\<lambda>d. toLowerCase (city d) \<in> set (map toLowerCase names) \<and> is_active d)
       (destinations st)"

text \<open>
  The cost block. The state of the \<open>forEach\<close> is the \<open>values\<close> object, \<open>minCost\<close>
  (\<open>None\<close> for the initial \<open>Infinity\<close>, below which every cost lies) and \<open>budgetWinner\<close>.
  \<open>cost\<close> is the text of the column or the number 100, and \<open>cost < minCost\<close> is the
  comparison of JavaScript: of strings when both are texts.
\<close>

definition cost_step ::
  "Destination \<Rightarrow> (string \<times> cell) list \<times> js_value option \<times> string
     \<Rightarrow> (string \<times> cell) list \<times> js_value option \<times> string" where
  "cost_step d acc =
     (case acc of (vals, minCost, budgetWinner) \<Rightarrow>
        (let cost = decimal_or (average_daily_cost_usd d) 100;
             vals' = AList.update (city d) (CostPerDay cost) vals
         in if (case minCost of None \<Rightarrow> True | Some m \<Rightarrow> js_less cost m)
            then (vals', Some cost, city d)
            else (vals', minCost, budgetWinner)))"

definition cost_criterion :: "Destination list \<Rightarrow> Criterion" where
  "cost_criterion dests =
     (case fold cost_step dests ([], None, []) of (vals, minCost, budgetWinner) \<Rightarrow>
        \<lparr>criterion = ''Average Daily Cost'', cr_values = vals, winner = Some budgetWinner\<rparr>)"

text \<open>The weather block; \<open>currentMonth\<close> is the short lower-case name of the current month.\<close>

definition weather_criterion :: "string \<Rightarrow> Destination list \<Rightarrow> Criterion" where
  "weather_criterion currentMonth dests =
     \<lparr>criterion = ''Average Temperature (Current Month)'',
      cr_values =
        fold (\<lambda>d vals. AList.update (city d)
                 (DegreesC (json_number_or (case average_temp_celsius d of
                                      None \<Rightarrow> None
                                    | Some ts \<Rightarrow> map_of ts currentMonth) 20)) vals)
          dests [],
      winner = None\<rparr>"

definition activity_step ::
  "Destination \<Rightarrow> (string \<times> cell) list \<times> nat \<times> string
     \<Rightarrow> (string \<times> cell) list \<times> nat \<times> string" where
  "activity_step d acc =
     (case acc of (vals, maxActivities, activityWinner) \<Rightarrow>
        (let count = (case popular_activities d of None \<Rightarrow> 0 | Some xs \<Rightarrow> length xs);
             vals' = AList.update (city d) (PopularActivities count) vals
         in if count > maxActivities then (vals', count, city d)
            else (vals', maxActivities, activityWinner)))"

definition activity_criterion :: "Destination list \<Rightarrow> Criterion" where
  "activity_criterion dests =
     (case fold activity_step dests ([], 0, []) of (vals, maxActivities, activityWinner) \<Rightarrow>
        \<lparr>criterion = ''Popular Activities'', cr_values = vals, winner = Some activityWinner\<rparr>)"

definition culture_criterion :: "Destination list \<Rightarrow> Criterion" where
  "culture_criterion dests =
     \<lparr>criterion = ''Destination Type'',
      cr_values =
        fold (\<lambda>d vals. AList.update (city d)
                 (Text (str_or (map_option join_comma (destination_type d)) ''General tourism''))
                 vals)
          dests [],
      winner = None\<rparr>"

definition family_criterion :: "Destination list \<Rightarrow> Criterion" where
  "family_criterion dests =
     \<lparr>criterion = ''Family-Friendly'',
      cr_values =
        fold (\<lambda>d vals. AList.update (city d)
                 (Text (if ''FAMILY'' \<in> set (list_or (destination_type d) [])
                        then ''Excellent'' else ''Good'')) vals)
          dests [],
      winner = None\<rparr>"

text \<open>The five blocks, each guarded by \<open>comparison_criteria.includes(...)\<close>, in source order.\<close>

definition build_criteria :: "string \<Rightarrow> string list \<Rightarrow> Destination list \<Rightarrow> Criterion list" where
  "build_criteria currentMonth wanted dests =
     (if ''COST'' \<in> set wanted then [cost_criterion dests] else [])
     @ (if ''WEATHER'' \<in> set wanted then [weather_criterion currentMonth dests] else [])
     @ (if ''ACTIVITIES'' \<in> set wanted then [activity_criterion dests] else [])
     @ (if ''CULTURE'' \<in> set wanted then [culture_criterion dests] else [])
     @ (if ''FAMILY_FRIENDLY'' \<in> set wanted then [family_criterion dests] else [])"

text \<open>
  \<open>dests.reduce((min, dest) => cost(dest) < cost(min) ? dest : min)\<close>, on a non-empty
  array, and \<open>dests.find(CULTURAL) || dests[0]\<close>.
\<close>

definition budgetDest :: "Destination \<Rightarrow> Destination list \<Rightarrow> Destination" where
  "budgetDest d0 rest =
     fold (\<lambda>d m. if js_less (decimal_or (average_daily_cost_usd d) 100)
                       (decimal_or (average_daily_cost_usd m) 100)
                  then d else m) rest d0"

definition cultureDest :: "Destination \<Rightarrow> Destination list \<Rightarrow> Destination" where
  "cultureDest d0 rest =
     (case List.find (\<lambda>d. ''CULTURAL'' \<in> set (list_or (destination_type d) [])) (d0 # rest) of
        None \<Rightarrow> d0
      | Some d \<Rightarrow> d)"

definition compareDestinations ::
  "Store \<Rightarrow> string \<Rightarrow> CompareDestinationsInput \<Rightarrow> error + CompareDestinationsResponse" where
  "compareDestinations st currentMonth inp =
     (let wanted = (case comparison_criteria inp of
                      None \<Rightarrow> [''COST'', ''WEATHER'', ''ACTIVITIES'', ''CULTURE'']
                    | Some cs \<Rightarrow> cs)
      in if length (cd_destinations inp) < 2 \<or> length (cd_destinations inp) > 4
         then Inl (Error ''Please provide 2-4 destinations to compare'')
         else
           let dests = select_destinations st (cd_destinations inp)
           in if length dests < length (cd_destinations inp)
              then Inl (Error ''One or more destinations not found'')
              else (case dests of
                      [] \<Rightarrow> Inl (Error ''Reduce of empty array with no initial value'')
                    | d0 # rest \<Rightarrow>
                        Inr \<lparr>comparison_matrix =
                               \<lparr>cm_destinations = map city dests,
                                criteria = build_criteria currentMonth wanted dests\<rparr>,
                             recommendation =
                               \<lparr>best_for_budget = city (budgetDest d0 rest),
                                best_for_weather = city d0,
                                best_for_culture = city (cultureDest d0 rest),
                                overall_recommendation =
                                  ''Based on your comparison, '' @ city d0
                                  @ '' offers a great balance of experiences. However, each destination has unique strengths worth considering.''\<rparr>\<rparr>))"

subsection \<open>The seeded store\<close>

text \<open>
  The five rows that \<open>seed.sql\<close> inserts into \<open>destinations\<close>, with the columns the
  modelled handlers read. Text outside ASCII is given by its UTF-8 bytes. The seed
  inserts no row into \<open>travel_recommendations_log\<close> and one preference profile, whose
  \<open>passenger_id\<close> is generated at insertion time and is therefore not a fixed value.
\<close>

definition barcelona :: Destination where
  "barcelona =
     \<lparr>city = ''Barcelona'', country = ''Spain'',
      destination_type = Some [''CULTURAL'', ''BEACH'', ''FAMILY''],
      best_time_to_visit = Some \<lparr>months = Some [''April'', ''May'', ''June'', ''September'', ''October''],
        weather = Some ''Mild and sunny''\<rparr>,
      average_temp_celsius = Some [(''jan'', 13), (''feb'', 14), (''mar'', 16), (''apr'', 18), (''may'', 21), (''jun'', 25), (''jul'', 28), (''aug'', 28), (''sep'', 25), (''oct'', 21), (''nov'', 16), (''dec'', 14)],
      safety_rating = Some (42 / 10), tourist_infrastructure_rating = Some (48 / 10),
      budget_level = Some ''MODERATE'', average_daily_cost_usd = Some (Hundredths 12000),
      popular_activities = Some [''Beach'', ''Architecture'', ''Museums'', ''Food Tours'', ''Shopping''],
      famous_attractions = Some [''Sagrada Familia'', ''Park G'' @ [CHR 0xC3, CHR 0xBC] @ ''ell'', ''Las Ramblas'', ''Gothic Quarter'', ''Casa Batll'' @ [CHR 0xC3, CHR 0xB3]],
      hero_image_url = Some ''https://images.unsplash.com/photo-1583422409516-2895a77efded'',
      gallery_images = None, is_active = True\<rparr>"

definition tokyo :: Destination where
  "tokyo =
     \<lparr>city = ''Tokyo'', country = ''Japan'',
      destination_type = Some [''CULTURAL'', ''LUXURY'', ''FAMILY''],
      best_time_to_visit = Some \<lparr>months = Some [''March'', ''April'', ''May'', ''October'', ''November''],
        weather = Some ''Pleasant temperatures''\<rparr>,
      average_temp_celsius = Some [(''jan'', 6), (''feb'', 7), (''mar'', 11), (''apr'', 16), (''may'', 20), (''jun'', 23), (''jul'', 27), (''aug'', 28), (''sep'', 24), (''oct'', 18), (''nov'', 13), (''dec'', 8)],
      safety_rating = Some (49 / 10), tourist_infrastructure_rating = Some (5),
      budget_level = Some ''MODERATE'', average_daily_cost_usd = Some (Hundredths 15000),
      popular_activities = Some [''Temples'', ''Shopping'', ''Food Tours'', ''Technology'', ''Anime''],
      famous_attractions = Some [''Senso-ji Temple'', ''Tokyo Skytree'', ''Shibuya Crossing'', ''Meiji Shrine'', ''Tsukiji Market''],
      hero_image_url = Some ''https://images.unsplash.com/photo-1540959733332-eab4deabeeaf'',
      gallery_images = None, is_active = True\<rparr>"

definition dubai :: Destination where
  "dubai =
     \<lparr>city = ''Dubai'', country = ''United Arab Emirates'',
      destination_type = Some [''LUXURY'', ''SHOPPING'', ''BEACH'', ''FAMILY''],
      best_time_to_visit = Some \<lparr>months = Some [''November'', ''December'', ''January'', ''February'', ''March''],
        weather = Some ''Warm and dry''\<rparr>,
      average_temp_celsius = Some [(''jan'', 20), (''feb'', 21), (''mar'', 24), (''apr'', 28), (''may'', 32), (''jun'', 35), (''jul'', 37), (''aug'', 38), (''sep'', 35), (''oct'', 31), (''nov'', 26), (''dec'', 22)],
      safety_rating = Some (46 / 10), tourist_infrastructure_rating = Some (5),
      budget_level = Some ''LUXURY'', average_daily_cost_usd = Some (Hundredths 20000),
      popular_activities = Some [''Shopping'', ''Desert Safari'', ''Beach'', ''Skyscrapers'', ''Fine Dining''],
      famous_attractions = Some [''Burj Khalifa'', ''Dubai Mall'', ''Palm Jumeirah'', ''Dubai Marina'', ''Gold Souk''],
      hero_image_url = Some ''https://images.unsplash.com/photo-1512453979798-5ea266f8880c'',
      gallery_images = None, is_active = True\<rparr>"

definition panama_city :: Destination where
  "panama_city =
     \<lparr>city = ''Panama City'', country = ''Panama'',
      destination_type = Some [''CULTURAL'', ''BEACH'', ''ADVENTURE''],
      best_time_to_visit = Some \<lparr>months = Some [''December'', ''January'', ''February'', ''March'', ''April''],
        weather = Some ''Dry season''\<rparr>,
      average_temp_celsius = Some [(''jan'', 27), (''feb'', 27), (''mar'', 28), (''apr'', 28), (''may'', 27), (''jun'', 27), (''jul'', 27), (''aug'', 27), (''sep'', 27), (''oct'', 26), (''nov'', 26), (''dec'', 27)],
      safety_rating = Some (4), tourist_infrastructure_rating = Some (43 / 10),
      budget_level = Some ''MODERATE'', average_daily_cost_usd = Some (Hundredths 10000),
      popular_activities = Some [''Canal Tour'', ''Old Town'', ''Island Hopping'', ''Rainforest'', ''Beaches''],
      famous_attractions = Some [''Panama Canal'', ''Casco Viejo'', ''Biomuseo'', ''Miraflores Locks'', ''Metropolitan Natural Park''],
      hero_image_url = Some ''https://images.unsplash.com/photo-1582737989364-2eef72a4f88b'',
      gallery_images = None, is_active = True\<rparr>"

definition cartagena :: Destination where
  "cartagena =
     \<lparr>city = ''Cartagena'', country = ''Colombia'',
      destination_type = Some [''CULTURAL'', ''BEACH'', ''ROMANTIC''],
      best_time_to_visit = Some \<lparr>months = Some [''December'', ''January'', ''February'', ''March''],
        weather = Some ''Dry and warm''\<rparr>,
      average_temp_celsius = Some [(''jan'', 27), (''feb'', 27), (''mar'', 28), (''apr'', 28), (''may'', 28), (''jun'', 28), (''jul'', 28), (''aug'', 28), (''sep'', 28), (''oct'', 27), (''nov'', 27), (''dec'', 27)],
      safety_rating = Some (38 / 10), tourist_infrastructure_rating = Some (4),
      budget_level = Some ''MODERATE'', average_daily_cost_usd = Some (Hundredths 8000),
      popular_activities = Some [''Historic Sites'', ''Beach'', ''Food Tours'', ''Salsa Dancing'', ''Island Hopping''],
      famous_attractions = Some [''Walled City'', ''Castillo San Felipe'', ''Rosario Islands'', ''Getsemani'', ''Las Bovedas''],
      hero_image_url = Some ''https://images.unsplash.com/photo-1568632234157-ce7aecd03d0d'',
      gallery_images = None, is_active = True\<rparr>"

definition seed_store :: Store where
  "seed_store =
     \<lparr>destinations = [barcelona, tokyo, dubai, panama_city, cartagena],
      user_travel_preferences = [],
      travel_recommendations_log = []\<rparr>"

subsection \<open>Sample requests and collaborator outcomes\<close>

definition plain_request :: RecommendDestinationsInput where
  "plain_request = \<lparr>in_passenger_id = None, in_context = None, recommendation_count = None\<rparr>"

text \<open>The request of the usage example in the README, whose passenger id is no UUID.\<close>

definition readme_request :: RecommendDestinationsInput where
  "readme_request = \<lparr>in_passenger_id = Some ''12345'', in_context = None,
     recommendation_count = Some 5\<rparr>"

definition one_pick_request :: RecommendDestinationsInput where
  "one_pick_request =
     \<lparr>in_passenger_id = None,
      in_context = Some (empty_context\<lparr>ctx_interests := Some []\<rparr>),
      recommendation_count = Some 1\<rparr>"

definition two_picks :: "ScoredDestination list" where
  "two_picks =
     [\<lparr>row = \<lparr>dest = tokyo, popularity_score = 0\<rparr>, match_score = 95\<rparr>,
      \<lparr>row = \<lparr>dest = dubai, popularity_score = 0\<rparr>, match_score = 90\<rparr>]"

definition culture_fan :: UserTravelPreferences where
  "culture_fan =
     \<lparr>passenger_id = ''p-1'', budget_preference = Some ''LUXURY'',
      interests = Some [''cultural'', ''luxury'', ''family''],
      bucket_list_destinations = None\<rparr>"

definition tokyo_row :: Candidate where
  "tokyo_row = \<lparr>dest = tokyo, popularity_score = 0\<rparr>"

definition barcelona_row :: Candidate where
  "barcelona_row = \<lparr>dest = barcelona, popularity_score = 0\<rparr>"

text \<open>The seeded store after one logged recommendation that listed Cartagena.\<close>

definition logged_store :: Store where
  "logged_store =
     seed_store\<lparr>travel_recommendations_log := [\<lparr>recommendations_shown = [''Cartagena'']\<rparr>]\<rparr>"

definition two_days_in_tokyo :: GenerateItineraryInput where
  "two_days_in_tokyo = \<lparr>gi_destination = ''tokyo'', duration_days = 2\<rparr>"

definition three_days_in_barcelona :: GenerateItineraryInput where
  "three_days_in_barcelona = \<lparr>gi_destination = ''Barcelona'', duration_days = 3\<rparr>"

text \<open>A featured three-day template of Barcelona, as the seed holds one.\<close>

definition barcelona_highlights :: ItineraryTemplate where
  "barcelona_highlights =
     \<lparr>template_id = ''t-1'', trip_style = ''BALANCED'', tpl_daily_schedule = Some [],
      tpl_packing_list = None, tpl_budget_breakdown = None\<rparr>"

definition beach_article :: GenerateInspirationInput where
  "beach_article =
     \<lparr>content_type = ''ARTICLE'', gin_theme = ''BEACH'', target_destination = Some ''Barcelona'',
      target_audience = None, tone = None, word_count = None\<rparr>"

definition barcelona_vs_tokyo :: CompareDestinationsInput where
  "barcelona_vs_tokyo =
     \<lparr>cd_destinations = [''Barcelona'', ''Tokyo''], comparison_criteria = Some [''COST'']\<rparr>"

definition barcelona_twice :: CompareDestinationsInput where
  "barcelona_twice =
     \<lparr>cd_destinations = [''Barcelona'', ''barcelona''], comparison_criteria = None\<rparr>"

definition barcelona_vs_cartagena :: CompareDestinationsInput where
  "barcelona_vs_cartagena =
     \<lparr>cd_destinations = [''Barcelona'', ''Cartagena''], comparison_criteria = Some [''COST'']\<rparr>"

text \<open>The seeded store with the daily cost of Tokyo lowered to 90.00.\<close>

definition tokyo_at_90 :: Destination where
  "tokyo_at_90 = tokyo\<lparr>average_daily_cost_usd := Some (Hundredths 9000)\<rparr>"

definition cheaper_tokyo_store :: Store where
  "cheaper_tokyo_store =
     seed_store\<lparr>destinations := [barcelona, tokyo_at_90, dubai, panama_city, cartagena]\<rparr>"

text \<open>
  The seeded store with a second active row named Barcelona, the city in Venezuela; no
  constraint of the schema makes the city unique.
\<close>

definition barcelona_venezuela :: Destination where
  "barcelona_venezuela = barcelona\<lparr>country := ''Venezuela''\<rparr>"

definition twin_store :: Store where
  "twin_store =
     seed_store\<lparr>destinations :=
       [barcelona, tokyo, dubai, panama_city, cartagena, barcelona_venezuela]\<rparr>"

section \<open>Properties\<close>

subsection \<open>Shared facts\<close>

lemmas boost_defs = preference_boost_def context_boost_def seasonal_boost_def
  popularity_boost_def infrastructure_boost_def

lemma preference_boost_nonneg: "0 \<le> preference_boost up d"
  by (simp add: preference_boost_def split: option.splits)

lemma context_boost_nonneg: "0 \<le> context_boost ctx d"
  by (simp add: context_boost_def split: option.splits)

lemma seasonal_boost_nonneg: "0 \<le> seasonal_boost ctx d"
  by (simp add: seasonal_boost_def split: option.splits)

lemma popularity_boost_bounds: "0 \<le> popularity_boost c \<and> popularity_boost c \<le> 10"
  by (simp add: popularity_boost_def)

lemma infrastructure_boost_bounds:
  "rating_in_range d \<Longrightarrow> 0 \<le> infrastructure_boost d \<and> infrastructure_boost d \<le> 10"
  by (auto simp: infrastructure_boost_def rating_in_range_def split: option.splits)

lemma try_write_continues: "try_write w = Inr ()"
  by (simp add: try_write_def split: sum.split)

lemma str_or_nonempty: "dflt \<noteq> [] \<Longrightarrow> str_or x dflt \<noteq> []"
  by (simp add: str_or_def split: option.splits)

lemma score_format_recommendation:
  "rec_match_score (format_recommendation ctx i s) = match_score s"
  by (simp add: format_recommendation_def Let_def)

lemma reasons_format_recommendation:
  "length (match_reasons (format_recommendation ctx i s)) \<le> 3"
  by (simp add: format_recommendation_def Let_def slice0_def)

lemma length_format_all: "length (format_all ctx xs) = length xs"
  by (simp add: format_all_def)

lemma scores_format_all: "map rec_match_score (format_all ctx xs) = map match_score xs"
proof -
  have "map (\<lambda>p. rec_match_score (format_recommendation ctx (fst p) (snd p))) (enumerate n xs)
        = map match_score xs" for n
    by (induction xs arbitrary: n) (simp_all add: score_format_recommendation)
  then show ?thesis
    by (simp add: format_all_def case_prod_unfold comp_def)
qed

lemma reasons_format_all:
  "e \<in> set (format_all ctx xs) \<Longrightarrow> length (match_reasons e) \<le> 3"
  by (auto simp: format_all_def reasons_format_recommendation)

lemma candidate_query_count:
  "candidate_query st ctx count = Inr rows \<Longrightarrow> 0 \<le> count"
  by (simp add: candidate_query_def split: if_splits)

lemma candidate_query_total:
  "0 \<le> count \<Longrightarrow> \<exists>rows. candidate_query st ctx count = Inr rows"
  by (simp add: candidate_query_def)

lemma length_topDestinations:
  "0 \<le> count \<Longrightarrow> length (topDestinations up ctx count rows) \<le> nat count"
  by (simp add: topDestinations_def slice0_def sort_by_score_def)

text \<open>The handler, once the candidate query has returned its rows.\<close>

lemma recommendDestinations_rows:
  assumes "lookup_preferences st (in_passenger_id inp) = Inr up"
    and "candidate_query st (context_of inp) (requested_count inp) = Inr rows"
  shows "recommendDestinations st ai w inp =
     (if rows = [] then Inr \<lparr>recommendations = [], inspiration_themes = []\<rparr>
      else Inr \<lparr>recommendations = format_all (context_of inp)
                 (if up \<noteq> None \<or> ctx_interests (context_of inp) \<noteq> None
                  then personalizeRecommendations ai
                         (topDestinations up (context_of inp) (requested_count inp) rows)
                  else topDestinations up (context_of inp) (requested_count inp) rows),
                inspiration_themes = slice0 3 (map theme_entry (collect_themes rows))\<rparr>)"
  unfolding recommendDestinations_def Let_def assms
  by (auto simp: try_write_continues split: option.split)

lemma lookup_preferences_anonymous: "lookup_preferences st None = Inr None"
  by (simp add: lookup_preferences_def)

text \<open>A passenger id outside the syntax of the \<open>uuid\<close> type ends the request in an error.\<close>

lemma non_uuid_passenger_rejected:
  "recommendDestinations seed_store ai w readme_request
   = Inl (Error (''invalid input syntax for type uuid: '' @ [CHR 0x22] @ ''12345'' @ [CHR 0x22]))"
proof -
  have "\<not> is_uuid ''12345''"
    by code_simp
  then show ?thesis
    by (simp add: recommendDestinations_def lookup_preferences_def readme_request_def Let_def)
qed

lemma recommendDestinations_total:
  assumes "lookup_preferences st (in_passenger_id inp) = Inr up"
    and "0 \<le> requested_count inp"
  shows "\<exists>r. recommendDestinations st ai w inp = Inr r"
proof -
  from candidate_query_total [OF assms(2)] obtain rows where
    "candidate_query st (context_of inp) (requested_count inp) = Inr rows" by blast
  then show ?thesis by (simp add: recommendDestinations_rows [OF assms(1)])
qed

text \<open>
  The recommendations are the formatted top list, unless the provider returned a list of
  its own.
\<close>

lemma recommend_cases:
  assumes "recommendDestinations st ai w inp = Inr r"
  shows "\<exists>up rows. lookup_preferences st (in_passenger_id inp) = Inr up
     \<and> candidate_query st (context_of inp) (requested_count inp) = Inr rows
     \<and> (recommendations r = format_all (context_of inp)
            (topDestinations up (context_of inp) (requested_count inp) rows)
        \<or> (\<exists>recs. ai = Completed (Some recs)
              \<and> recommendations r = format_all (context_of inp) recs))"
proof (cases "lookup_preferences st (in_passenger_id inp)")
  case (Inl e)
  with assms show ?thesis by (simp add: recommendDestinations_def Let_def)
next
  case up: (Inr up)
  show ?thesis
  proof (cases "candidate_query st (context_of inp) (requested_count inp)")
    case (Inl e)
    with assms up show ?thesis by (simp add: recommendDestinations_def Let_def)
  next
    case (Inr rows)
    let ?top = "topDestinations up (context_of inp) (requested_count inp) rows"
    show ?thesis
    proof (cases "rows = []")
      case True
      with assms have "recommendations r = []"
        by (auto simp: recommendDestinations_rows [OF up Inr])
      moreover have "?top = []"
        using True by (simp add: topDestinations_def slice0_def sort_by_score_def)
      ultimately show ?thesis using up Inr by (simp add: format_all_def)
    next
      case False
      have p: "personalizeRecommendations ai ?top = ?top
               \<or> (\<exists>recs. ai = Completed (Some recs)
                     \<and> personalizeRecommendations ai ?top = recs)"
        by (simp add: personalizeRecommendations_def split: ai_outcome.splits option.splits)
      from assms False have
        "recommendations r = format_all (context_of inp) (personalizeRecommendations ai ?top)
         \<or> recommendations r = format_all (context_of inp) ?top"
        by (auto simp: recommendDestinations_rows [OF up Inr] split: if_splits)
      with p up Inr show ?thesis by auto
    qed
  qed
qed

text \<open>The seeded store, asked without profile, context or count.\<close>

lemma seeded_scores:
  "map_sum id (map rec_match_score \<circ> recommendations)
     (recommendDestinations seed_store NotConfigured Written plain_request)
   = Inr [60, 60, 298 / 5, 293 / 5, 58]"
  by code_simp

lemma seeded_cities:
  "map_sum id (map destination \<circ> recommendations)
     (recommendDestinations seed_store NotConfigured Written plain_request)
   = Inr [''Tokyo'', ''Dubai'', ''Barcelona'', ''Panama City'', ''Cartagena'']"
  by code_simp

lemma find_tokyo: "find_destination seed_store ''tokyo'' = Some tokyo"
  by code_simp

lemma find_barcelona: "find_destination seed_store ''Barcelona'' = Some barcelona"
  by code_simp

lemma fallback_when_generation_fails:
  assumes "1 \<le> duration_days inp" and "duration_days inp \<le> 30"
    and "find_destination st (gi_destination inp) = Some d"
    and "ai = NotConfigured \<or> ai = CallFailed"
  shows "generatePersonalizedItinerary st [] usage_write ai template_write inp
         = Inr (fallback_response d (duration_days inp))"
  using assms by (auto simp: generatePersonalizedItinerary_def generateItinerary_def)

text \<open>Two of the three best-effort writes are absorbed.\<close>

lemma log_write_absorbed:
  "recommendDestinations st ai w inp = recommendDestinations st ai Written inp"
proof (cases "lookup_preferences st (in_passenger_id inp)")
  case (Inl e)
  then show ?thesis by (simp add: recommendDestinations_def Let_def)
next
  case up: (Inr up)
  show ?thesis
    by (cases "candidate_query st (context_of inp) (requested_count inp)")
       (simp add: recommendDestinations_def Let_def up,
        simp add: recommendDestinations_rows [OF up])
qed

text \<open>
  The sibling handlers absorb a provider that is not configured or fails:
  recommend-destinations answers as if the provider had returned no list of its own,
  and generate-personalized-itinerary falls back (\<open>fallback_when_generation_fails\<close>).
\<close>

lemma recommend_absorbs_provider_failure:
  assumes "ai = NotConfigured \<or> ai = CallFailed"
  shows "recommendDestinations st ai w inp = recommendDestinations st (Completed None) w inp"
proof -
  have "personalizeRecommendations ai = personalizeRecommendations (Completed None)"
    using assms by (auto simp: personalizeRecommendations_def fun_eq_iff)
  then show ?thesis by (simp only: recommendDestinations_def)
qed

lemma template_write_absorbed:
  "generatePersonalizedItinerary st [] uw ai w inp
   = generatePersonalizedItinerary st [] uw ai Written inp"
  by (simp add: generatePersonalizedItinerary_def try_write_continues
      split: option.split sum.split)

subsection \<open>The match score\<close>

text \<open>
  Claim C1, as amended. For every candidate row whose infrastructure rating respects the
  column constraint, every stored profile (present or absent) and every context, each
  term added to the base of 50 is non-negative, the sum is at least 50, and the match
  score is that sum clamped to at most 100: a number between 50 and 100. The score is a
  rational number and need not be an integer, since twice a rating with one decimal is
  added to it.
\<close>

theorem match_score_range:
  assumes "rating_in_range (dest c)"
  shows "0 \<le> preference_boost up (dest c) \<and> 0 \<le> context_boost ctx (dest c)
       \<and> 0 \<le> seasonal_boost ctx (dest c) \<and> 0 \<le> popularity_boost c
       \<and> 0 \<le> infrastructure_boost (dest c)
       \<and> 50 \<le> matchScore up ctx c
       \<and> match_score (score_candidate up ctx c) = min (matchScore up ctx c) 100
       \<and> 0 \<le> match_score (score_candidate up ctx c)
       \<and> 50 \<le> match_score (score_candidate up ctx c)
       \<and> match_score (score_candidate up ctx c) \<le> 100"
proof -
  have t: "0 \<le> preference_boost up (dest c)" "0 \<le> context_boost ctx (dest c)"
    "0 \<le> seasonal_boost ctx (dest c)" "0 \<le> popularity_boost c"
    "0 \<le> infrastructure_boost (dest c)"
    using preference_boost_nonneg context_boost_nonneg seasonal_boost_nonneg
      popularity_boost_bounds infrastructure_boost_bounds [OF assms] by auto
  then have "50 \<le> matchScore up ctx c"
    by (simp add: matchScore_def)
  with t show ?thesis
    by (simp add: score_candidate_def)
qed

text \<open>The seeded row of Barcelona, without profile and context, scores 59.6.\<close>

theorem match_score_range_witness:
  "rating_in_range (dest barcelona_row)
   \<and> match_score (score_candidate None empty_context barcelona_row) = 298 / 5
   \<and> 50 \<le> match_score (score_candidate None empty_context barcelona_row)
   \<and> match_score (score_candidate None empty_context barcelona_row) \<le> 100"
proof -
  have r: "rating_in_range (dest barcelona_row)"
    by (simp add: rating_in_range_def barcelona_row_def barcelona_def)
  have v: "match_score (score_candidate None empty_context barcelona_row) = 298 / 5"
    by (simp add: score_candidate_def matchScore_def boost_defs empty_context_def
        barcelona_row_def barcelona_def)
  from match_score_range [OF r, of None empty_context] r v show ?thesis by simp
qed

text \<open>
  Claim C1 as stated fails: on the seeded store a request without profile, context or
  count returns the scores 60, 60, 59.6, 58.6 and 58, and 59.6 is not an integer.
\<close>

theorem match_score_not_integer:
  "map_sum id (map rec_match_score \<circ> recommendations)
     (recommendDestinations seed_store NotConfigured Written plain_request)
   = Inr [60, 60, 298 / 5, 293 / 5, 58]
   \<and> match_score (score_candidate None empty_context barcelona_row) = 298 / 5
   \<and> \<not> is_integer (298 / 5)"
proof -
  have v: "match_score (score_candidate None empty_context barcelona_row) = 298 / 5"
    by (simp add: score_candidate_def matchScore_def boost_defs empty_context_def
        barcelona_row_def barcelona_def)
  have n: "\<not> is_integer (298 / 5)"
    by code_simp
  from seeded_scores v n show ?thesis by simp
qed

text \<open>
  Claim C2, as amended. Let two profiles agree on their interests and their budget
  preference, the first with the candidate's city on its bucket list and the second
  without. Then the sum before the clamp is exactly 25 higher for the first. The final
  score is exactly 25 higher when the sum of the second is at most 75; otherwise the
  final score of the first is 100 and exceeds that of the second by less than 25.
\<close>

theorem bucket_list_adds_25_before_clamp:
  assumes "on_bucket_list (dest c) pw" and "\<not> on_bucket_list (dest c) po"
    and "interests pw = interests po" and "budget_preference pw = budget_preference po"
  shows "matchScore (Some pw) ctx c = matchScore (Some po) ctx c + 25
       \<and> match_score (score_candidate (Some pw) ctx c) = min (matchScore (Some po) ctx c + 25) 100
       \<and> (matchScore (Some po) ctx c \<le> 75 \<longrightarrow>
            match_score (score_candidate (Some pw) ctx c)
              = match_score (score_candidate (Some po) ctx c) + 25)
       \<and> (75 < matchScore (Some po) ctx c \<longrightarrow>
            match_score (score_candidate (Some pw) ctx c) = 100
            \<and> match_score (score_candidate (Some pw) ctx c)
                < match_score (score_candidate (Some po) ctx c) + 25)"
proof -
  have "interestMatch (dest c) pw = interestMatch (dest c) po"
    using assms(3) by (simp add: interestMatch_def)
  then have "matchScore (Some pw) ctx c = matchScore (Some po) ctx c + 25"
    using assms by (simp add: matchScore_def preference_boost_def)
  then show ?thesis
    by (auto simp: score_candidate_def min_def)
qed

text \<open>
  Barcelona for a profile without interests: 59.6 without the bucket-list entry, 84.6
  with it.
\<close>

theorem bucket_list_adds_25_before_clamp_witness:
  "on_bucket_list (dest barcelona_row)
     (culture_fan\<lparr>interests := None, bucket_list_destinations := Some [''Barcelona'']\<rparr>)
   \<and> \<not> on_bucket_list (dest barcelona_row) (culture_fan\<lparr>interests := None\<rparr>)
   \<and> matchScore (Some (culture_fan\<lparr>interests := None\<rparr>)) empty_context barcelona_row = 298 / 5
   \<and> match_score (score_candidate
        (Some (culture_fan\<lparr>interests := None, bucket_list_destinations := Some [''Barcelona'']\<rparr>))
        empty_context barcelona_row)
      = match_score (score_candidate (Some (culture_fan\<lparr>interests := None\<rparr>))
          empty_context barcelona_row) + 25"
proof -
  let ?pw = "culture_fan\<lparr>interests := None, bucket_list_destinations := Some [''Barcelona'']\<rparr>"
  let ?po = "culture_fan\<lparr>interests := None\<rparr>"
  have a: "on_bucket_list (dest barcelona_row) ?pw"
    by (simp add: on_bucket_list_def barcelona_row_def barcelona_def)
  have b: "\<not> on_bucket_list (dest barcelona_row) ?po"
    by (simp add: on_bucket_list_def culture_fan_def)
  have v: "matchScore (Some ?po) empty_context barcelona_row = 298 / 5"
    by (simp add: matchScore_def boost_defs empty_context_def barcelona_row_def barcelona_def
        culture_fan_def interestMatch_def on_bucket_list_def list_or_def)
  from bucket_list_adds_25_before_clamp [OF a b, of empty_context] a b v
  show ?thesis by simp
qed

text \<open>
  Claim C2 as stated fails: for Tokyo and a profile whose three interests all match, the
  score is 90 without the bucket-list entry and 100, not 115, with it.
\<close>

theorem bucket_list_gain_clamped:
  "match_score (score_candidate
     (Some (culture_fan\<lparr>bucket_list_destinations := Some [''Tokyo'']\<rparr>)) empty_context tokyo_row)
   = 100
   \<and> match_score (score_candidate (Some culture_fan) empty_context tokyo_row) = 90"
  by code_simp

text \<open>
  Claim C8. For a fixed candidate row, let the stored profile be absent in both
  situations, or present in both with the same budget preference and bucket list; let the
  travel month be the same; and let the context interests be absent in both or present
  in both. If the number of category tags matched by the profile interests and the
  number matched by the context interests do not decrease from the first situation to
  the second, then the match score does not decrease.
\<close>

theorem score_monotone_in_matches:
  assumes "rel_option (\<lambda>p1 p2. budget_preference p1 = budget_preference p2
              \<and> bucket_list_destinations p1 = bucket_list_destinations p2
              \<and> interestMatch (dest c) p1 \<le> interestMatch (dest c) p2) up1 up2"
    and "travel_month ctx1 = travel_month ctx2"
    and "rel_option (\<lambda>is1 is2. contextMatch (dest c) is1 \<le> contextMatch (dest c) is2)
           (ctx_interests ctx1) (ctx_interests ctx2)"
  shows "match_score (score_candidate up1 ctx1 c) \<le> match_score (score_candidate up2 ctx2 c)"
proof -
  have p: "preference_boost up1 (dest c) \<le> preference_boost up2 (dest c)"
    using assms(1)
    by (cases up1; cases up2) (auto simp: preference_boost_def on_bucket_list_def)
  have q: "context_boost ctx1 (dest c) \<le> context_boost ctx2 (dest c)"
    using assms(3)
    by (cases "ctx_interests ctx1"; cases "ctx_interests ctx2") (auto simp: context_boost_def)
  have s: "seasonal_boost ctx1 (dest c) = seasonal_boost ctx2 (dest c)"
    using assms(2) by (simp add: seasonal_boost_def)
  from p q s have "matchScore up1 ctx1 c \<le> matchScore up2 ctx2 c"
    by (simp add: matchScore_def)
  then show ?thesis
    by (simp add: score_candidate_def min_le_iff_disj)
qed

text \<open>
  Tokyo: one matching profile interest and one matching context interest against three
  and two.
\<close>

theorem score_monotone_in_matches_witness:
  "interestMatch tokyo (culture_fan\<lparr>interests := Some [''cultural'']\<rparr>) = 1
   \<and> interestMatch tokyo culture_fan = 3
   \<and> contextMatch tokyo [''family''] = 1
   \<and> contextMatch tokyo [''family'', ''luxury''] = 2
   \<and> match_score (score_candidate (Some (culture_fan\<lparr>interests := Some [''cultural'']\<rparr>))
        (empty_context\<lparr>ctx_interests := Some [''family'']\<rparr>) tokyo_row)
      \<le> match_score (score_candidate (Some culture_fan)
        (empty_context\<lparr>ctx_interests := Some [''family'', ''luxury'']\<rparr>) tokyo_row)"
proof -
  have a: "interestMatch tokyo (culture_fan\<lparr>interests := Some [''cultural'']\<rparr>) = 1"
    by code_simp
  have b: "interestMatch tokyo culture_fan = 3"
    by code_simp
  have c: "contextMatch tokyo [''family''] = 1"
    by code_simp
  have d: "contextMatch tokyo [''family'', ''luxury''] = 2"
    by code_simp
  from score_monotone_in_matches
    [of tokyo_row "Some (culture_fan\<lparr>interests := Some [''cultural'']\<rparr>)" "Some culture_fan"
        "empty_context\<lparr>ctx_interests := Some [''family'']\<rparr>"
        "empty_context\<lparr>ctx_interests := Some [''family'', ''luxury'']\<rparr>"]
    a b c d
  show ?thesis by (simp add: tokyo_row_def)
qed

subsection \<open>The size and the order of the recommendation list\<close>

text \<open>
  Claim C5, as amended. Whenever recommend-destinations returns, and the personalization
  step does not hand back more entries than were requested (in particular when the
  provider is not configured, fails, or returns no list of its own), the response holds
  at most the requested number of recommendations. The requested number is 5 when the
  request gives none. The handler applies no cap of its own: a requested number of at
  most 10, the bound that the input schema declares, yields at most 10 entries. Every
  entry, whatever its origin, carries at most 3 match reasons.
\<close>

theorem recommendation_count_bound:
  assumes "recommendDestinations st ai w inp = Inr r"
    and "case ai of Completed (Some recs) \<Rightarrow> length recs \<le> nat (requested_count inp)
         | _ \<Rightarrow> True"
  shows "length (recommendations r) \<le> nat (requested_count inp)
       \<and> (recommendation_count inp = None \<longrightarrow> requested_count inp = 5)
       \<and> (requested_count inp \<le> 10 \<longrightarrow> length (recommendations r) \<le> 10)
       \<and> (\<forall>e \<in> set (recommendations r). length (match_reasons e) \<le> 3)"
proof -
  from recommend_cases [OF assms(1)] obtain up rows where
    q: "candidate_query st (context_of inp) (requested_count inp) = Inr rows" and
    c: "recommendations r = format_all (context_of inp)
            (topDestinations up (context_of inp) (requested_count inp) rows)
        \<or> (\<exists>recs. ai = Completed (Some recs)
              \<and> recommendations r = format_all (context_of inp) recs)"
    by blast
  have len: "length (recommendations r) \<le> nat (requested_count inp)"
    using c assms(2) length_topDestinations [OF candidate_query_count [OF q]]
    by (auto simp: length_format_all)
  have reasons: "\<forall>e \<in> set (recommendations r). length (match_reasons e) \<le> 3"
    using c reasons_format_all by auto
  have dflt: "recommendation_count inp = None \<longrightarrow> requested_count inp = 5"
    by (simp add: requested_count_def)
  from len reasons dflt show ?thesis by auto
qed

text \<open>The seeded store, asked without a count: five entries.\<close>

theorem recommendation_count_bound_witness:
  "\<exists>r. recommendDestinations seed_store NotConfigured Written plain_request = Inr r
     \<and> requested_count plain_request = 5
     \<and> map destination (recommendations r)
         = [''Tokyo'', ''Dubai'', ''Barcelona'', ''Panama City'', ''Cartagena'']
     \<and> length (recommendations r) \<le> 5
     \<and> (\<forall>e \<in> set (recommendations r). length (match_reasons e) \<le> 3)"
proof -
  have n: "requested_count plain_request = 5"
    by (simp add: requested_count_def plain_request_def)
  then obtain r where
    r: "recommendDestinations seed_store NotConfigured Written plain_request = Inr r"
    using recommendDestinations_total [of seed_store plain_request None NotConfigured Written]
    by (auto simp: plain_request_def lookup_preferences_anonymous)
  from seeded_cities r have
    "map destination (recommendations r)
       = [''Tokyo'', ''Dubai'', ''Barcelona'', ''Panama City'', ''Cartagena'']"
    by simp
  with recommendation_count_bound [OF r] n r show ?thesis by simp
qed

text \<open>
  Claim C5 as stated fails: one recommendation is requested with an empty interest
  list, the provider answers with a list of two, and two recommendations are returned.
\<close>

theorem personalization_exceeds_count:
  "requested_count one_pick_request = 1
   \<and> map_sum id (map destination \<circ> recommendations)
       (recommendDestinations seed_store (Completed (Some two_picks)) Written one_pick_request)
     = Inr [''Tokyo'', ''Dubai'']"
  by code_simp

text \<open>
  A stable sort by a first key leaves the elements with equal first key in their former
  order.
\<close>

lemma sorted_wrt_ties:
  assumes "\<And>k. sorted_wrt R (filter (\<lambda>y. f y = k) ys)"
  shows "sorted_wrt (\<lambda>a b. f a = f b \<longrightarrow> R a b) ys"
  using assms
proof (induction ys)
  case Nil
  then show ?case by simp
next
  case (Cons y ys)
  have tail: "sorted_wrt R (filter (\<lambda>z. f z = k) ys)" for k
    using Cons.prems [of k] by (simp split: if_splits)
  have head: "R y b" if "b \<in> set ys" "f y = f b" for b
    using Cons.prems [of "f y"] that by auto
  from Cons.IH [OF tail] head show ?case by auto
qed

lemma sorted_wrt_both:
  "sorted_wrt P xs \<Longrightarrow> sorted_wrt Q xs \<Longrightarrow> sorted_wrt (\<lambda>a b. P a b \<and> Q a b) xs"
  by (induction xs) auto

lemma candidate_query_sorted:
  assumes "candidate_query st ctx count = Inr rows"
  shows "sorted_wrt (\<lambda>a b. order_key a \<le> order_key b) rows"
proof -
  from assms obtain n xs where "rows = take n (sort_key order_key xs)"
    by (auto simp: candidate_query_def split: if_splits)
  moreover have "sorted_wrt (\<lambda>a b. order_key a \<le> order_key b) (sort_key order_key xs)"
    using sorted_sort_key [of order_key xs] by (simp add: sorted_map)
  ultimately show ?thesis by (simp add: sorted_wrt_take)
qed

lemma topDestinations_sorted:
  assumes "sorted_wrt (\<lambda>a b. order_key a \<le> order_key b) rows" and "0 \<le> count"
  shows "sorted_wrt (\<lambda>a b. match_score b \<le> match_score a
            \<and> (match_score a = match_score b \<longrightarrow> order_key (row a) \<le> order_key (row b)))
           (topDestinations up ctx count rows)"
proof -
  let ?R = "\<lambda>a b. order_key (row a) \<le> order_key (row b)"
  let ?key = "\<lambda>s. - match_score s"
  let ?scored = "map (score_candidate up ctx) rows"
  have s0: "sorted_wrt ?R ?scored"
    using assms(1) by (simp add: sorted_wrt_map score_candidate_def)
  have "sorted_wrt ?R (filter (\<lambda>y. ?key y = k) (sort_key ?key ?scored))" for k
    using s0 by (simp add: sort_key_stable sorted_wrt_filter)
  then have ties: "sorted_wrt (\<lambda>a b. ?key a = ?key b \<longrightarrow> ?R a b) (sort_key ?key ?scored)"
    by (rule sorted_wrt_ties)
  have desc: "sorted_wrt (\<lambda>a b. ?key a \<le> ?key b) (sort_key ?key ?scored)"
    using sorted_sort_key [of ?key ?scored] by (simp add: sorted_map)
  have "sorted_wrt (\<lambda>a b. ?key a \<le> ?key b \<and> (?key a = ?key b \<longrightarrow> ?R a b))
          (take (nat count) (sort_key ?key ?scored))"
    using sorted_wrt_both [OF desc ties] by (simp add: sorted_wrt_take)
  then show ?thesis
    using assms(2) by (simp add: topDestinations_def slice0_def sort_by_score_def)
qed

text \<open>
  Claim C6, as amended. Whenever recommend-destinations returns and the personalization
  step leaves the list as it is (the provider is not configured, fails, or returns no
  list of its own), the recommendations are the formatted top list, in descending order
  of match score. Two entries with equal match scores keep the order of the candidate
  query, which is by descending popularity count first and by descending
  tourist-infrastructure rating (a missing rating first) only among rows of equal
  popularity: the comparison of \<open>order_key\<close> is lexicographic on the negated columns.
  Here \<open>up\<close> is the profile that the preference lookup returned.
\<close>

theorem ranking_order:
  assumes "recommendDestinations st ai w inp = Inr r"
    and "\<forall>xs. personalizeRecommendations ai xs = xs"
  shows "\<exists>up rows. lookup_preferences st (in_passenger_id inp) = Inr up
     \<and> candidate_query st (context_of inp) (requested_count inp) = Inr rows
     \<and> recommendations r = format_all (context_of inp)
            (topDestinations up (context_of inp) (requested_count inp) rows)
     \<and> sorted_wrt (\<lambda>a b. match_score b \<le> match_score a
            \<and> (match_score a = match_score b \<longrightarrow> order_key (row a) \<le> order_key (row b)))
          (topDestinations up (context_of inp) (requested_count inp) rows)
     \<and> sorted_wrt (\<lambda>a b. rec_match_score b \<le> rec_match_score a) (recommendations r)"
proof -
  from recommend_cases [OF assms(1)] obtain up rows where
    u: "lookup_preferences st (in_passenger_id inp) = Inr up" and
    q: "candidate_query st (context_of inp) (requested_count inp) = Inr rows" and
    c: "recommendations r = format_all (context_of inp)
            (topDestinations up (context_of inp) (requested_count inp) rows)
        \<or> (\<exists>recs. ai = Completed (Some recs)
              \<and> recommendations r = format_all (context_of inp) recs)"
    by blast
  let ?top = "topDestinations up (context_of inp) (requested_count inp) rows"
  have "ai \<noteq> Completed (Some recs)" for recs
  proof
    assume a: "ai = Completed (Some recs)"
    from assms(2) have "personalizeRecommendations ai [] = []"
      and "personalizeRecommendations ai (recs @ recs @ [undefined]) = recs @ recs @ [undefined]"
      by blast+
    with a show False by (simp add: personalizeRecommendations_def)
  qed
  with c have eq: "recommendations r = format_all (context_of inp) ?top" by auto
  have srt: "sorted_wrt (\<lambda>a b. match_score b \<le> match_score a
            \<and> (match_score a = match_score b \<longrightarrow> order_key (row a) \<le> order_key (row b)))
          ?top"
    using topDestinations_sorted [OF candidate_query_sorted [OF q] candidate_query_count [OF q]] .
  then have "sorted_wrt (\<lambda>a b. match_score b \<le> match_score a) ?top"
    by (rule sorted_wrt_mono_rel [rotated]) simp
  then have "sorted_wrt (\<lambda>x y. y \<le> x) (map match_score ?top)"
    by (simp add: sorted_wrt_map)
  then have "sorted_wrt (\<lambda>x y. y \<le> x) (map rec_match_score (recommendations r))"
    by (simp add: eq scores_format_all)
  then have "sorted_wrt (\<lambda>a b. rec_match_score b \<le> rec_match_score a) (recommendations r)"
    by (simp add: sorted_wrt_map)
  with u q eq srt show ?thesis by blast
qed

text \<open>The seeded store: the five scores come back in descending order.\<close>

theorem ranking_order_witness:
  "\<exists>r. recommendDestinations seed_store NotConfigured Written plain_request = Inr r
     \<and> (\<forall>xs. personalizeRecommendations NotConfigured xs = xs)
     \<and> map rec_match_score (recommendations r) = [60, 60, 298 / 5, 293 / 5, 58]
     \<and> sorted_wrt (\<lambda>a b. rec_match_score b \<le> rec_match_score a) (recommendations r)"
proof -
  have "0 \<le> requested_count plain_request"
    by (simp add: requested_count_def plain_request_def)
  then obtain r where
    r: "recommendDestinations seed_store NotConfigured Written plain_request = Inr r"
    using recommendDestinations_total [of seed_store plain_request None NotConfigured Written]
    by (auto simp: plain_request_def lookup_preferences_anonymous)
  have k: "\<forall>xs. personalizeRecommendations NotConfigured xs = xs"
    by (simp add: personalizeRecommendations_def)
  from seeded_scores r have
    v: "map rec_match_score (recommendations r) = [60, 60, 298 / 5, 293 / 5, 58]"
    by simp
  from ranking_order [OF r k] have
    "sorted_wrt (\<lambda>a b. rec_match_score b \<le> rec_match_score a) (recommendations r)"
    by (elim exE conjE)
  with r k v show ?thesis
    by (intro exI [of _ r] conjI)
qed

text \<open>
  Claim C6 as stated fails on its tie-break: once a logged recommendation has listed
  Cartagena, Cartagena (rating 4.0) precedes Tokyo and Dubai (rating 5.0) although the
  three have the same match score 60.
\<close>

theorem tie_not_by_rating:
  "map_sum id (map destination \<circ> recommendations)
     (recommendDestinations logged_store NotConfigured Written plain_request)
   = Inr [''Cartagena'', ''Tokyo'', ''Dubai'', ''Barcelona'', ''Panama City'']
   \<and> map_sum id (map rec_match_score \<circ> recommendations)
       (recommendDestinations logged_store NotConfigured Written plain_request)
     = Inr [60, 60, 60, 298 / 5, 293 / 5]
   \<and> tourist_infrastructure_rating cartagena = Some 4
   \<and> tourist_infrastructure_rating tokyo = Some 5"
  by code_simp

subsection \<open>The fallback itinerary\<close>

text \<open>
  Claim C3. For every request whose destination is found among the active rows and whose
  duration lies between 1 and 30 days, when no template matches and the generation is
  not configured or fails, generate-personalized-itinerary returns a response and does
  not throw. Its daily schedule has exactly \<open>duration_days\<close> entries; entry \<open>i\<close>, counted
  from 0, has the day number \<open>i + 1\<close>, a non-empty theme, a morning, an afternoon and an
  evening slot with non-empty activity and duration at the destination's city, non-empty
  breakfast, lunch and dinner, and an estimated cost: the daily cost of the destination
  as the store delivers it, or the number 100 when that column is \<open>NULL\<close>.
\<close>

theorem fallback_itinerary_valid:
  assumes "1 \<le> duration_days inp" and "duration_days inp \<le> 30"
    and "find_destination st (gi_destination inp) = Some d"
    and "ai = NotConfigured \<or> ai = CallFailed"
  shows "\<exists>r. generatePersonalizedItinerary st [] usage_write ai template_write inp = Inr r
       \<and> int (length (daily_schedule r)) = duration_days inp
       \<and> (\<forall>i < length (daily_schedule r).
            day (daily_schedule r ! i) = int i + 1
          \<and> theme (daily_schedule r ! i) \<noteq> []
          \<and> activity (morning (daily_schedule r ! i)) \<noteq> []
          \<and> activity (afternoon (daily_schedule r ! i)) \<noteq> []
          \<and> activity (evening (daily_schedule r ! i)) \<noteq> []
          \<and> duration (morning (daily_schedule r ! i)) \<noteq> []
          \<and> duration (afternoon (daily_schedule r ! i)) \<noteq> []
          \<and> duration (evening (daily_schedule r ! i)) \<noteq> []
          \<and> location (morning (daily_schedule r ! i)) = city d
          \<and> location (afternoon (daily_schedule r ! i)) = city d
          \<and> location (evening (daily_schedule r ! i)) = city d
          \<and> breakfast (meals (daily_schedule r ! i)) \<noteq> []
          \<and> lunch (meals (daily_schedule r ! i)) \<noteq> []
          \<and> dinner (meals (daily_schedule r ! i)) \<noteq> []
          \<and> estimated_cost (daily_schedule r ! i) = decimal_or (average_daily_cost_usd d) 100)"
proof -
  let ?r = "fallback_response d (duration_days inp)"
  have run: "generatePersonalizedItinerary st [] usage_write ai template_write inp = Inr ?r"
    using assms by (rule fallback_when_generation_fails)
  have len: "int (length (daily_schedule ?r)) = duration_days inp"
    using assms(1) by (simp add: fallback_response_def)
  have entry: "daily_schedule ?r ! i = fallback_day d i" if "i < length (daily_schedule ?r)" for i
    using that by (simp add: fallback_response_def)
  have ok: "day (fallback_day d i) = int i + 1
          \<and> theme (fallback_day d i) \<noteq> []
          \<and> activity (morning (fallback_day d i)) \<noteq> []
          \<and> activity (afternoon (fallback_day d i)) \<noteq> []
          \<and> activity (evening (fallback_day d i)) \<noteq> []
          \<and> duration (morning (fallback_day d i)) \<noteq> []
          \<and> duration (afternoon (fallback_day d i)) \<noteq> []
          \<and> duration (evening (fallback_day d i)) \<noteq> []
          \<and> location (morning (fallback_day d i)) = city d
          \<and> location (afternoon (fallback_day d i)) = city d
          \<and> location (evening (fallback_day d i)) = city d
          \<and> breakfast (meals (fallback_day d i)) \<noteq> []
          \<and> lunch (meals (fallback_day d i)) \<noteq> []
          \<and> dinner (meals (fallback_day d i)) \<noteq> []
          \<and> estimated_cost (fallback_day d i) = decimal_or (average_daily_cost_usd d) 100" for i
    by (simp add: fallback_day_def str_or_nonempty)
  from run len entry ok show ?thesis by simp
qed

text \<open>Two days in Tokyo on the seeded store, without a configured provider.\<close>

theorem fallback_itinerary_valid_witness:
  "\<exists>r. generatePersonalizedItinerary seed_store [] Written NotConfigured Written two_days_in_tokyo
         = Inr r
     \<and> length (daily_schedule r) = 2
     \<and> map (\<lambda>e. (day e, theme e, activity (morning e), activity (afternoon e), estimated_cost e))
         (daily_schedule r)
       = [(1, ''Arrival & City Introduction'', ''Senso-ji Temple'', ''Tokyo Skytree'',
           DecimalText (Hundredths 15000)),
          (2, ''Day 2 Exploration'', ''Shibuya Crossing'', ''Meiji Shrine'',
           DecimalText (Hundredths 15000))]
     \<and> dec_text (Hundredths 15000) = ''150.00''"
proof -
  have f: "find_destination seed_store (gi_destination two_days_in_tokyo) = Some tokyo"
    by (simp add: two_days_in_tokyo_def find_tokyo)
  from fallback_itinerary_valid [of two_days_in_tokyo seed_store tokyo NotConfigured Written Written]
  obtain r where
    r: "generatePersonalizedItinerary seed_store [] Written NotConfigured Written two_days_in_tokyo
        = Inr r"
    and l: "int (length (daily_schedule r)) = duration_days two_days_in_tokyo"
    using f by (auto simp: two_days_in_tokyo_def)
  have "generatePersonalizedItinerary seed_store [] Written NotConfigured Written two_days_in_tokyo
        = Inr (fallback_response tokyo 2)"
    using fallback_when_generation_fails [of two_days_in_tokyo seed_store tokyo NotConfigured] f
    by (simp add: two_days_in_tokyo_def)
  with r have "r = fallback_response tokyo 2" by simp
  moreover have
    "map (\<lambda>e. (day e, theme e, activity (morning e), activity (afternoon e), estimated_cost e))
       (daily_schedule (fallback_response tokyo 2))
     = [(1, ''Arrival & City Introduction'', ''Senso-ji Temple'', ''Tokyo Skytree'',
         DecimalText (Hundredths 15000)),
        (2, ''Day 2 Exploration'', ''Shibuya Crossing'', ''Meiji Shrine'',
         DecimalText (Hundredths 15000))]"
    by code_simp
  moreover have "dec_text (Hundredths 15000) = ''150.00''"
    by code_simp
  ultimately show ?thesis using r l by (simp add: two_days_in_tokyo_def)
qed

subsection \<open>Failures of the collaborators\<close>

text \<open>
  Claim C4 fails on the code: generate-travel-inspiration awaits the generation outside
  any \<open>try\<close> and has no fallback tier, so a provider that is not configured, or whose
  call fails, ends the request in the provider's error, whereas the sibling handlers
  absorb the same failure.
\<close>

theorem inspiration_surfaces_enrichment_error:
  "generateTravelInspiration seed_store NotConfigured Written beach_article
   = Inl (Error ''OpenAI not configured'')
   \<and> generateTravelInspiration seed_store CallFailed Written beach_article
   = Inl (Error ''Failed to generate inspiration content'')"
  by (simp add: generateTravelInspiration_def generateInspirationContent_def)

text \<open>
  Claim C7 fails on the code: the increment of the usage counter of a matched template is
  awaited outside any \<open>try\<close>. A three-day itinerary for Barcelona with a matching
  template and a failing \<open>UPDATE\<close> ends in the error of the store, although the
  destination and the template were found.
\<close>

theorem usage_update_failure_propagates:
  "generatePersonalizedItinerary seed_store [barcelona_highlights]
     (WriteThrows (Error ''connection terminated'')) NotConfigured Written
     three_days_in_barcelona
   = Inl (Error ''connection terminated'')
   \<and> generatePersonalizedItinerary seed_store [barcelona_highlights]
     Written NotConfigured Written three_days_in_barcelona
   = Inr (template_response barcelona 3 barcelona_highlights)"
  using find_barcelona
  by (simp add: generatePersonalizedItinerary_def three_days_in_barcelona_def await_write_def)

subsection \<open>Comparison of destinations\<close>

text \<open>The cost row for two rows: the second wins when its cost is less in the sense of \<open><\<close>.\<close>

lemma cost_criterion_pair:
  "winner (cost_criterion [a, b])
     = Some (if js_less (decimal_or (average_daily_cost_usd b) 100)
                        (decimal_or (average_daily_cost_usd a) 100)
             then city b else city a)"
  by (simp add: cost_criterion_def cost_step_def Let_def)

text \<open>
  Claim C9 fails on the code. The named call returns exactly one criterion row, and on
  the seeded store its winner is Barcelona (120.00 against 150.00). But from the second
  row on the cost block compares the texts of the costs, so the declared winner need
  not be the destination with the lower cost: with Tokyo at 90.00 the same call still
  declares Barcelona, in either order of the rows, since the text \<open>90.00\<close> is not less
  than the text \<open>120.00\<close>; and on the seeded store Barcelona (120.00) is declared against
  Cartagena (80.00).
\<close>

theorem cost_winner_compares_text:
  "map_sum id (criteria \<circ> comparison_matrix)
     (compareDestinations seed_store ''nov'' barcelona_vs_tokyo)
   = Inr [\<lparr>criterion = ''Average Daily Cost'',
           cr_values = [(''Barcelona'', CostPerDay (DecimalText (Hundredths 12000))),
                        (''Tokyo'', CostPerDay (DecimalText (Hundredths 15000)))],
           winner = Some ''Barcelona''\<rparr>]
   \<and> map_sum id (map winner \<circ> criteria \<circ> comparison_matrix)
       (compareDestinations cheaper_tokyo_store ''nov'' barcelona_vs_tokyo)
     = Inr [Some ''Barcelona'']
   \<and> winner (cost_criterion [tokyo_at_90, barcelona]) = Some ''Barcelona''
   \<and> map (dec_text \<circ> the \<circ> average_daily_cost_usd) [barcelona, tokyo_at_90, cartagena]
     = [''120.00'', ''90.00'', ''80.00'']
   \<and> map_sum id (map winner \<circ> criteria \<circ> comparison_matrix)
       (compareDestinations seed_store ''nov'' barcelona_vs_cartagena)
     = Inr [Some ''Barcelona'']
   \<and> winner (cost_criterion [cartagena, barcelona]) = Some ''Barcelona''"
  by code_simp

text \<open>Selecting among the active rows keeps their cities distinct.\<close>

lemma select_destinations_distinct:
  assumes "distinct (map (\<lambda>d. toLowerCase (city d)) (filter is_active (destinations st)))"
  shows "distinct (map (\<lambda>d. toLowerCase (city d)) (select_destinations st names))"
proof -
  have "distinct (map (\<lambda>d. toLowerCase (city d))
          (filter (\<lambda>d. toLowerCase (city d) \<in> set (map toLowerCase names))
            (filter is_active (destinations st))))"
    using assms by (rule distinct_map_filter)
  then show ?thesis
    by (simp add: select_destinations_def conj_commute)
qed

text \<open>
  Claim C10, as amended. Let the table hold at most one active row per lower-cased city.
  Then every compare-destinations request that lists two to four names of which two are
  equal up to letter case fails with the error \<open>One or more destinations not found\<close>,
  whether or not every named destination exists and is active: the lookup returns at
  most one row per distinct lower-cased name, fewer rows than the request has entries.
\<close>

theorem duplicate_city_not_found:
  assumes "2 \<le> length (cd_destinations inp)" and "length (cd_destinations inp) \<le> 4"
    and "\<not> distinct (map toLowerCase (cd_destinations inp))"
    and "distinct (map (\<lambda>d. toLowerCase (city d)) (filter is_active (destinations st)))"
  shows "compareDestinations st currentMonth inp = Inl (Error ''One or more destinations not found'')"
proof -
  let ?names = "cd_destinations inp"
  let ?rows = "select_destinations st ?names"
  have sub: "set (map (\<lambda>d. toLowerCase (city d)) ?rows) \<subseteq> set (map toLowerCase ?names)"
    by (auto simp: select_destinations_def)
  have "length ?rows = card (set (map (\<lambda>d. toLowerCase (city d)) ?rows))"
    using distinct_card [OF select_destinations_distinct [OF assms(4)], of ?names] by simp
  also have "\<dots> \<le> card (set (map toLowerCase ?names))"
    using sub by (rule card_mono [rotated]) simp
  also have "\<dots> < length ?names"
  proof -
    have "card (set (map toLowerCase ?names)) \<le> length (map toLowerCase ?names)"
      by (rule card_length)
    moreover have "card (set (map toLowerCase ?names)) \<noteq> length (map toLowerCase ?names)"
      using assms(3) card_distinct by blast
    ultimately show ?thesis by simp
  qed
  finally have "length ?rows < length ?names" .
  with assms(1,2) show ?thesis
    by (simp add: compareDestinations_def Let_def)
qed

text \<open>Barcelona, named twice in different letter case, on the seeded store.\<close>

theorem duplicate_city_not_found_witness:
  "2 \<le> length (cd_destinations barcelona_twice) \<and> length (cd_destinations barcelona_twice) \<le> 4
   \<and> \<not> distinct (map toLowerCase (cd_destinations barcelona_twice))
   \<and> distinct (map (\<lambda>d. toLowerCase (city d)) (filter is_active (destinations seed_store)))
   \<and> find_destination seed_store ''barcelona'' = Some barcelona
   \<and> compareDestinations seed_store ''nov'' barcelona_twice
       = Inl (Error ''One or more destinations not found'')"
proof -
  have u: "distinct (map (\<lambda>d. toLowerCase (city d)) (filter is_active (destinations seed_store)))"
    by code_simp
  have n: "\<not> distinct (map toLowerCase (cd_destinations barcelona_twice))"
    by code_simp
  have f: "find_destination seed_store ''barcelona'' = Some barcelona"
    by code_simp
  have l: "2 \<le> length (cd_destinations barcelona_twice)"
    "length (cd_destinations barcelona_twice) \<le> 4"
    by (simp_all add: barcelona_twice_def)
  from duplicate_city_not_found [OF l n u, of "''nov''"] l n u f
  show ?thesis by (intro conjI)
qed

text \<open>
  Claim C10 as stated fails: when the table holds two active rows named Barcelona, the
  request that names Barcelona twice finds two rows and succeeds, comparing the two.
\<close>

theorem duplicate_rows_compare_succeeds:
  "\<not> distinct (map toLowerCase (cd_destinations barcelona_twice))
   \<and> map is_active (destinations twin_store) = [True, True, True, True, True, True]
   \<and> map_sum id (cm_destinations \<circ> comparison_matrix)
       (compareDestinations twin_store ''nov'' barcelona_twice)
     = Inr [''Barcelona'', ''Barcelona'']"
  by code_simp

end
